theory Spec2Isabelle
  imports Complex_Main
begin

section \<open>Values, documents and exceptions\<close>

text \<open>
  The request bodies and the stored documents of \<^verbatim>\<open>server.py\<close> are untyped
  (\<^verbatim>\<open>Dict[str, Any]\<close>, MongoDB documents). A value is a number, a string, a list, a
  dictionary, a boolean, a timestamp or \<^verbatim>\<open>None\<close>. A dictionary keeps its insertion order, so it is
  an association list.

  An integer is exact and unbounded (\<open>IntV\<close>), a float is a finite real (\<open>Num\<close>), an
  infinity or a NaN. Strings are ASCII text, one \<open>char\<close> for each character.
\<close>

datatype pyval =
    Num real
  | IntV int
  | PosInf
  | NegInf
  | NaN
  | Bool bool
  | Str string
  | PList "pyval list"
  | Dict "(string \<times> pyval) list"
  | DateTime nat
  | NoneVal

type_synonym doc = "(string \<times> pyval) list"

datatype exn =
    ZeroDivisionError
  | TypeError
  | AttributeError
  | WriteError
  | OverflowError
  | HTTPException nat string
  | Exception string

definition ebind :: "exn + 'a \<Rightarrow> ('a \<Rightarrow> exn + 'b) \<Rightarrow> exn + 'b" where
  "ebind m f = (case m of Inl e \<Rightarrow> Inl e | Inr v \<Rightarrow> f v)"

text \<open>\<^verbatim>\<open>d.get(k, default)\<close> and \<^verbatim>\<open>d[k] = v\<close>.\<close>

definition dget :: "doc \<Rightarrow> string \<Rightarrow> pyval \<Rightarrow> pyval" where
  "dget d k dflt = (case map_of d k of None \<Rightarrow> dflt | Some v \<Rightarrow> v)"

fun dict_set :: "string \<Rightarrow> pyval \<Rightarrow> doc \<Rightarrow> doc" where
  "dict_set k v [] = [(k, v)]"
| "dict_set k v (p # ps) = (if fst p = k then (k, v) # ps else p # dict_set k v ps)"

section \<open>Exact arithmetic\<close>

text \<open>
  The EMI, SIP and budget calculators are modelled over exact arithmetic: an operator
  takes the real values of its operands, integers or floats, and returns the real result
  as a \<open>Num\<close>; the binary rounding, the finite range and the special values of
  \<^verbatim>\<open>float\<close> are left out there. Division by zero, which Python raises for integers
  and floats alike, is part of the model. (The compound and the simple interest
  calculators use the binary operators of the section on floating point below.)

  Every operator raises \<^verbatim>\<open>TypeError\<close> on an operand that is not a number; a
  boolean counts as 1 or 0, as in Python. (Python lets \<^verbatim>\<open>*\<close> repeat a string or a
  list an integral number of times; in every place where \<^verbatim>\<open>calculate_simulation\<close>
  multiplies, the product then meets a float operand, a subtraction or a power, and the
  request ends in \<^verbatim>\<open>TypeError\<close> all the same.)
\<close>

fun num_of :: "pyval \<Rightarrow> real option" where
  "num_of (Num x) = Some x"
| "num_of (IntV i) = Some (of_int i)"
| "num_of (Bool b) = Some (if b then 1 else 0)"
| "num_of _ = None"

definition arith :: "(real \<Rightarrow> real \<Rightarrow> exn + 'a) \<Rightarrow> pyval \<Rightarrow> pyval \<Rightarrow> exn + 'a" where
  "arith f a b =
     (case num_of a of None \<Rightarrow> Inl TypeError
      | Some x \<Rightarrow> (case num_of b of None \<Rightarrow> Inl TypeError | Some y \<Rightarrow> f x y))"

definition py_add :: "pyval \<Rightarrow> pyval \<Rightarrow> exn + pyval" where
  "py_add = arith (\<lambda>x y. Inr (Num (x + y)))"

definition py_sub :: "pyval \<Rightarrow> pyval \<Rightarrow> exn + pyval" where
  "py_sub = arith (\<lambda>x y. Inr (Num (x - y)))"

definition py_mul :: "pyval \<Rightarrow> pyval \<Rightarrow> exn + pyval" where
  "py_mul = arith (\<lambda>x y. Inr (Num (x * y)))"

definition py_div :: "pyval \<Rightarrow> pyval \<Rightarrow> exn + pyval" where
  "py_div = arith (\<lambda>x y. if y = 0 then Inl ZeroDivisionError else Inr (Num (x / y)))"

definition py_gt :: "pyval \<Rightarrow> pyval \<Rightarrow> exn + bool" where
  "py_gt = arith (\<lambda>x y. Inr (x > y))"

definition py_ge :: "pyval \<Rightarrow> pyval \<Rightarrow> exn + bool" where
  "py_ge = arith (\<lambda>x y. Inr (x \<ge> y))"

text \<open>
  \<^verbatim>\<open>x ** y\<close>: anything to the power 0 is 1; 0 to a negative power raises
  \<^verbatim>\<open>ZeroDivisionError\<close>; a negative base with a fractional exponent gives a complex
  number, on which the \<^verbatim>\<open>round\<close> that follows in \<^verbatim>\<open>calculate_simulation\<close> raises
  \<^verbatim>\<open>TypeError\<close> (nothing that could raise another exception lies between the two).
\<close>

definition pow_real :: "real \<Rightarrow> real \<Rightarrow> exn + real" where
  "pow_real x y =
     (if y = 0 then Inr 1
      else if x = 0 then (if y < 0 then Inl ZeroDivisionError else Inr 0)
      else if y = of_int \<lfloor>y\<rfloor> then Inr (x powi \<lfloor>y\<rfloor>)
      else if x < 0 then Inl TypeError
      else Inr (x powr y))"

definition py_pow :: "pyval \<Rightarrow> pyval \<Rightarrow> exn + pyval" where
  "py_pow = arith (\<lambda>x y. ebind (pow_real x y) (\<lambda>z. Inr (Num z)))"

text \<open>
  \<^verbatim>\<open>round(x, 2)\<close> rounds to the nearest multiple of 0.01, a tie going to the even
  neighbour.
\<close>

definition round_half_even :: "real \<Rightarrow> int" where
  "round_half_even y =
     (let f = \<lfloor>y\<rfloor>; d = y - of_int f
      in if d < 1 / 2 then f
         else if d > 1 / 2 then f + 1
         else if even f then f else f + 1)"

definition round2 :: "real \<Rightarrow> real" where
  "round2 x = of_int (round_half_even (x * 100)) / 100"

definition py_round2 :: "pyval \<Rightarrow> exn + pyval" where
  "py_round2 a = (case num_of a of None \<Rightarrow> Inl TypeError | Some x \<Rightarrow> Inr (Num (round2 x)))"

text \<open>\<^verbatim>\<open>sum(xs)\<close>: starts from 0 and adds from the left.\<close>

fun py_sum_from :: "pyval \<Rightarrow> pyval list \<Rightarrow> exn + pyval" where
  "py_sum_from acc [] = Inr acc"
| "py_sum_from acc (v # vs) = ebind (py_add acc v) (\<lambda>acc'. py_sum_from acc' vs)"

definition py_sum :: "pyval list \<Rightarrow> exn + pyval" where
  "py_sum vs = py_sum_from (IntV 0) vs"

fun dict_values :: "pyval \<Rightarrow> exn + pyval list" where
  "dict_values (Dict kvs) = Inr (map snd kvs)"
| "dict_values _ = Inl AttributeError"

section \<open>The platform\<close>

text \<open>
  What the handlers take from the platform they run on and the repository does not define:
  the C library's \<^verbatim>\<open>pow\<close>, which Python calls for a positive base other than 1 and a
  finite exponent other than 0 (\<open>None\<close> when it reports a range error), and the BSON
  encoder's verdict on a document (the exception it raises, if any).
\<close>

record platform =
  pow_libm :: "real \<Rightarrow> real \<Rightarrow> real option"
  bson_error :: "doc \<Rightarrow> exn option"

section \<open>Binary floating point\<close>

text \<open>
  The compound and the simple interest calculators are modelled with the arithmetic
  Python performs: integers are exact and unbounded, a \<^verbatim>\<open>float\<close> is an IEEE 754
  binary64 number. A finite float is the real number it denotes (\<open>Num\<close>; the sign of zero
  is not kept), and \<open>fl\<close> rounds a real to the nearest float: 53 significant bits, ties to
  the even neighbour, gradual underflow below \<open>2^-1022\<close>. A result that rounds to
  \<open>2^1024\<close> or beyond is an infinity (\<open>rnd\<close>).
\<close>

datatype fval = Fin real | Infty bool | NaNv

definition fl :: "real \<Rightarrow> real" where
  "fl x = (if x = 0 then 0
           else (let e = max \<lfloor>log 2 \<bar>x\<bar>\<rfloor> (- 1022);
                     q = 2 powi (e - 52)
                 in of_int (round_half_even (x / q)) * q))"

definition rnd :: "real \<Rightarrow> fval" where
  "rnd x = (let y = fl x in if 2 ^ 1024 \<le> \<bar>y\<bar> then Infty (0 < y) else Fin y)"

fun fneg :: "fval \<Rightarrow> fval" where
  "fneg (Fin a) = Fin (- a)"
| "fneg (Infty s) = Infty (\<not> s)"
| "fneg NaNv = NaNv"

fun fadd :: "fval \<Rightarrow> fval \<Rightarrow> fval" where
  "fadd (Fin a) (Fin b) = rnd (a + b)"
| "fadd (Fin a) (Infty t) = Infty t"
| "fadd (Infty s) (Fin b) = Infty s"
| "fadd (Infty s) (Infty t) = (if s = t then Infty s else NaNv)"
| "fadd NaNv y = NaNv"
| "fadd x NaNv = NaNv"

definition fsub :: "fval \<Rightarrow> fval \<Rightarrow> fval" where
  "fsub x y = fadd x (fneg y)"

fun fmul :: "fval \<Rightarrow> fval \<Rightarrow> fval" where
  "fmul (Fin a) (Fin b) = rnd (a * b)"
| "fmul (Fin a) (Infty t) = (if a = 0 then NaNv else Infty (t = (0 < a)))"
| "fmul (Infty s) (Fin b) = (if b = 0 then NaNv else Infty (s = (0 < b)))"
| "fmul (Infty s) (Infty t) = Infty (s = t)"
| "fmul NaNv y = NaNv"
| "fmul x NaNv = NaNv"

text \<open>The quotient by a divisor other than zero (Python raises before it divides by zero).\<close>

fun fquot :: "fval \<Rightarrow> fval \<Rightarrow> fval" where
  "fquot (Fin a) (Fin b) = rnd (a / b)"
| "fquot (Fin a) (Infty t) = Fin 0"
| "fquot (Infty s) (Fin b) = Infty (s = (0 < b))"
| "fquot (Infty s) (Infty t) = NaNv"
| "fquot NaNv y = NaNv"
| "fquot x NaNv = NaNv"

fun fgt :: "fval \<Rightarrow> fval \<Rightarrow> bool" where
  "fgt (Fin a) (Fin b) = (b < a)"
| "fgt (Fin a) (Infty t) = (\<not> t)"
| "fgt (Infty s) (Fin b) = s"
| "fgt (Infty s) (Infty t) = (s \<and> \<not> t)"
| "fgt NaNv y = False"
| "fgt x NaNv = False"

text \<open>
  \<^verbatim>\<open>round(x, 2)\<close> on a float: the decimal with two places nearest to the exact value of
  \<open>x\<close>, a tie going to the even one, and then the float nearest to that decimal. An
  infinity and a NaN are returned as they are.
\<close>

fun fround2 :: "fval \<Rightarrow> fval" where
  "fround2 (Fin x) = Fin (fl (of_int (round_half_even (x * 100)) / 100))"
| "fround2 (Infty s) = Infty s"
| "fround2 NaNv = NaNv"

text \<open>
  \<^verbatim>\<open>x ** y\<close> on floats, case by case as \<^verbatim>\<open>float_pow\<close> of CPython decides it; the
  C library is called last. A negative base with a fractional exponent gives a complex
  number, on which the \<^verbatim>\<open>round\<close> that follows raises \<^verbatim>\<open>TypeError\<close>.
\<close>

definition is_odd_integer :: "real \<Rightarrow> bool" where
  "is_odd_integer w = (w = of_int \<lfloor>w\<rfloor> \<and> odd \<lfloor>w\<rfloor>)"

definition float_pow :: "platform \<Rightarrow> fval \<Rightarrow> fval \<Rightarrow> exn + fval" where
  "float_pow pf v w =
     (if w = Fin 0 then Inr (Fin 1)
      else if v = NaNv then Inr NaNv
      else if w = NaNv then Inr (if v = Fin 1 then Fin 1 else NaNv)
      else (case w of
              Infty t \<Rightarrow>
                (if v = Fin 1 \<or> v = Fin (- 1) then Inr (Fin 1)
                 else if t = (case v of Fin x \<Rightarrow> 1 < \<bar>x\<bar> | _ \<Rightarrow> True) then Inr (Infty True)
                 else Inr (Fin 0))
            | Fin y \<Rightarrow>
                (case v of
                   Infty s \<Rightarrow>
                     (if 0 < y then Inr (if is_odd_integer y then Infty s else Infty True)
                      else Inr (Fin 0))
                 | Fin x \<Rightarrow>
                     (if x = 0 then (if y < 0 then Inl ZeroDivisionError else Inr (Fin 0))
                      else if x < 0 \<and> y \<noteq> of_int \<lfloor>y\<rfloor> then Inl TypeError
                      else if \<bar>x\<bar> = 1 then Inr (Fin (if x < 0 \<and> is_odd_integer y then - 1 else 1))
                      else (case pow_libm pf \<bar>x\<bar> y of
                              None \<Rightarrow> Inl OverflowError
                            | Some z \<Rightarrow> Inr (Fin (if x < 0 \<and> is_odd_integer y then - z else z))))
                 | NaNv \<Rightarrow> Inr NaNv)
            | NaNv \<Rightarrow> Inr NaNv))"

text \<open>
  The operators on Python values. Two integers (a boolean counts as 1 or 0) are worked on
  exactly; otherwise both operands are converted to float, which raises
  \<^verbatim>\<open>OverflowError\<close> for an integer beyond the floats. A comparison is exact.
\<close>

fun is_num :: "pyval \<Rightarrow> bool" where
  "is_num (Num x) = True"
| "is_num (IntV i) = True"
| "is_num PosInf = True"
| "is_num NegInf = True"
| "is_num NaN = True"
| "is_num (Bool b) = True"
| "is_num _ = False"

fun as_int :: "pyval \<Rightarrow> int option" where
  "as_int (IntV i) = Some i"
| "as_int (Bool b) = Some (if b then 1 else 0)"
| "as_int _ = None"

definition int_to_float :: "int \<Rightarrow> exn + fval" where
  "int_to_float i = (case rnd (of_int i) of Fin y \<Rightarrow> Inr (Fin y) | _ \<Rightarrow> Inl OverflowError)"

fun to_float :: "pyval \<Rightarrow> exn + fval" where
  "to_float (Num x) = Inr (Fin x)"
| "to_float PosInf = Inr (Infty True)"
| "to_float NegInf = Inr (Infty False)"
| "to_float NaN = Inr NaNv"
| "to_float (IntV i) = int_to_float i"
| "to_float (Bool b) = Inr (Fin (if b then 1 else 0))"
| "to_float _ = Inl TypeError"

fun exact_val :: "pyval \<Rightarrow> fval" where
  "exact_val (Num x) = Fin x"
| "exact_val PosInf = Infty True"
| "exact_val NegInf = Infty False"
| "exact_val (IntV i) = Fin (of_int i)"
| "exact_val (Bool b) = Fin (if b then 1 else 0)"
| "exact_val _ = NaNv"

fun of_fval :: "fval \<Rightarrow> pyval" where
  "of_fval (Fin x) = Num x"
| "of_fval (Infty s) = (if s then PosInf else NegInf)"
| "of_fval NaNv = NaN"

definition float_op :: "(fval \<Rightarrow> fval \<Rightarrow> exn + 'a) \<Rightarrow> pyval \<Rightarrow> pyval \<Rightarrow> exn + 'a" where
  "float_op ff a b = ebind (to_float a) (\<lambda>x. ebind (to_float b) (\<lambda>y. ff x y))"

definition num_op ::
  "(int \<Rightarrow> int \<Rightarrow> exn + pyval) \<Rightarrow> (fval \<Rightarrow> fval \<Rightarrow> exn + pyval) \<Rightarrow> pyval \<Rightarrow> pyval \<Rightarrow> exn + pyval" where
  "num_op fi ff a b =
     (if \<not> is_num a \<or> \<not> is_num b then Inl TypeError
      else (case as_int a of
              Some i \<Rightarrow> (case as_int b of Some j \<Rightarrow> fi i j | None \<Rightarrow> float_op ff a b)
            | None \<Rightarrow> float_op ff a b))"

definition fp_add :: "pyval \<Rightarrow> pyval \<Rightarrow> exn + pyval" where
  "fp_add = num_op (\<lambda>i j. Inr (IntV (i + j))) (\<lambda>x y. Inr (of_fval (fadd x y)))"

definition fp_sub :: "pyval \<Rightarrow> pyval \<Rightarrow> exn + pyval" where
  "fp_sub = num_op (\<lambda>i j. Inr (IntV (i - j))) (\<lambda>x y. Inr (of_fval (fsub x y)))"

definition fp_mul :: "pyval \<Rightarrow> pyval \<Rightarrow> exn + pyval" where
  "fp_mul = num_op (\<lambda>i j. Inr (IntV (i * j))) (\<lambda>x y. Inr (of_fval (fmul x y)))"

text \<open>\<^verbatim>\<open>/\<close>: the quotient of two integers is the float nearest to the exact quotient.\<close>

definition fp_div :: "pyval \<Rightarrow> pyval \<Rightarrow> exn + pyval" where
  "fp_div =
     num_op (\<lambda>i j. if j = 0 then Inl ZeroDivisionError
                    else (case rnd (of_int i / of_int j) of
                            Fin y \<Rightarrow> Inr (Num y) | _ \<Rightarrow> Inl OverflowError))
            (\<lambda>x y. if y = Fin 0 then Inl ZeroDivisionError else Inr (of_fval (fquot x y)))"

text \<open>\<^verbatim>\<open>**\<close>: an integer to a non-negative integer power is exact.\<close>

definition fp_pow :: "platform \<Rightarrow> pyval \<Rightarrow> pyval \<Rightarrow> exn + pyval" where
  "fp_pow pf =
     num_op (\<lambda>i j. if 0 \<le> j then Inr (IntV (i ^ nat j))
                    else float_op (\<lambda>x y. ebind (float_pow pf x y) (\<lambda>z. Inr (of_fval z)))
                           (IntV i) (IntV j))
            (\<lambda>x y. ebind (float_pow pf x y) (\<lambda>z. Inr (of_fval z)))"

definition fp_gt :: "pyval \<Rightarrow> pyval \<Rightarrow> exn + bool" where
  "fp_gt a b =
     (if \<not> is_num a \<or> \<not> is_num b then Inl TypeError
      else Inr (fgt (exact_val a) (exact_val b)))"

text \<open>\<^verbatim>\<open>round(x, 2)\<close>: an integer is returned as it is.\<close>

definition fp_round2 :: "pyval \<Rightarrow> exn + pyval" where
  "fp_round2 a =
     (case as_int a of
        Some i \<Rightarrow> Inr (IntV i)
      | None \<Rightarrow> ebind (to_float a) (\<lambda>x. Inr (of_fval (fround2 x))))"

section \<open>The calculators of \<^verbatim>\<open>calculate_simulation\<close>\<close>

text \<open>
  One definition per branch of the \<^verbatim>\<open>if\<close>/\<^verbatim>\<open>elif\<close> chain; each follows the
  statements of its branch in order, so that the first exception Python raises is the one
  the model returns.
\<close>

definition compound_interest :: "platform \<Rightarrow> doc \<Rightarrow> exn + doc" where
  "compound_interest pf inputs =
     (let principal = dget inputs ''principal'' (IntV 0) in
      ebind (fp_div (dget inputs ''rate'' (IntV 0)) (IntV 100)) (\<lambda>rate.
      let time = dget inputs ''time'' (IntV 0);
          frequency = dget inputs ''frequency'' (IntV 12) in
      ebind (fp_div rate frequency) (\<lambda>q.
      ebind (fp_add (IntV 1) q) (\<lambda>base.
      ebind (fp_mul frequency time) (\<lambda>expo.
      ebind (fp_pow pf base expo) (\<lambda>pw.
      ebind (fp_mul principal pw) (\<lambda>amount.
      ebind (fp_sub amount principal) (\<lambda>interest.
      ebind (fp_round2 amount) (\<lambda>final_amount.
      ebind (fp_round2 interest) (\<lambda>interest_earned.
      ebind (fp_gt principal (IntV 0)) (\<lambda>pos.
      ebind (if pos
             then ebind (fp_div interest principal) (\<lambda>r.
                  ebind (fp_mul r (IntV 100)) fp_round2)
             else Inr (IntV 0)) (\<lambda>total_return_percentage.
      Inr [(''final_amount'', final_amount),
           (''interest_earned'', interest_earned),
           (''principal'', principal),
           (''total_return_percentage'', total_return_percentage)]))))))))))))"

definition simple_interest :: "doc \<Rightarrow> exn + doc" where
  "simple_interest inputs =
     (let principal = dget inputs ''principal'' (IntV 0) in
      ebind (fp_div (dget inputs ''rate'' (IntV 0)) (IntV 100)) (\<lambda>rate.
      let time = dget inputs ''time'' (IntV 0) in
      ebind (fp_mul principal rate) (\<lambda>pr.
      ebind (fp_mul pr time) (\<lambda>interest.
      ebind (fp_add principal interest) (\<lambda>amount.
      ebind (fp_round2 amount) (\<lambda>final_amount.
      ebind (fp_round2 interest) (\<lambda>interest_earned.
      Inr [(''final_amount'', final_amount),
           (''interest_earned'', interest_earned),
           (''principal'', principal)])))))))"

definition emi_calculator :: "doc \<Rightarrow> exn + doc" where
  "emi_calculator inputs =
     (let principal = dget inputs ''principal'' (IntV 0) in
      ebind (py_div (dget inputs ''rate'' (IntV 0)) (IntV 100)) (\<lambda>r100.
      ebind (py_div r100 (IntV 12)) (\<lambda>rate.
      let months = dget inputs ''months'' (IntV 0) in
      ebind (py_gt rate (IntV 0)) (\<lambda>rate_pos.
      ebind (if rate_pos
             then ebind (py_mul principal rate) (\<lambda>pr.
                  ebind (py_add (IntV 1) rate) (\<lambda>b1.
                  ebind (py_pow b1 months) (\<lambda>pw1.
                  ebind (py_mul pr pw1) (\<lambda>numer.
                  ebind (py_add (IntV 1) rate) (\<lambda>b2.
                  ebind (py_pow b2 months) (\<lambda>pw2.
                  ebind (py_sub pw2 (IntV 1)) (\<lambda>denom.
                  py_div numer denom)))))))
             else ebind (py_gt months (IntV 0)) (\<lambda>months_pos.
                  if months_pos then py_div principal months else Inr (IntV 0))) (\<lambda>emi.
      ebind (py_mul emi months) (\<lambda>total_payment.
      ebind (py_sub total_payment principal) (\<lambda>total_interest.
      ebind (py_round2 emi) (\<lambda>emi_r.
      ebind (py_round2 total_payment) (\<lambda>total_payment_r.
      ebind (py_round2 total_interest) (\<lambda>total_interest_r.
      Inr [(''emi'', emi_r),
           (''total_payment'', total_payment_r),
           (''total_interest'', total_interest_r),
           (''principal'', principal)]))))))))))"

definition sip_calculator :: "doc \<Rightarrow> exn + doc" where
  "sip_calculator inputs =
     (let monthly_investment = dget inputs ''monthly_investment'' (IntV 0) in
      ebind (py_div (dget inputs ''rate'' (IntV 0)) (IntV 100)) (\<lambda>r100.
      ebind (py_div r100 (IntV 12)) (\<lambda>rate.
      let months = dget inputs ''months'' (IntV 0) in
      ebind (py_gt rate (IntV 0)) (\<lambda>rate_pos.
      ebind (if rate_pos
             then ebind (py_add (IntV 1) rate) (\<lambda>b.
                  ebind (py_pow b months) (\<lambda>pw.
                  ebind (py_sub pw (IntV 1)) (\<lambda>g.
                  ebind (py_div g rate) (\<lambda>series.
                  ebind (py_mul monthly_investment series) (\<lambda>m.
                  ebind (py_add (IntV 1) rate) (\<lambda>b'.
                  py_mul m b'))))))
             else py_mul monthly_investment months) (\<lambda>future_value.
      ebind (py_mul monthly_investment months) (\<lambda>total_invested.
      ebind (py_sub future_value total_invested) (\<lambda>returns.
      ebind (py_round2 future_value) (\<lambda>future_value_r.
      ebind (py_round2 total_invested) (\<lambda>total_invested_r.
      ebind (py_round2 returns) (\<lambda>returns_r.
      ebind (py_gt total_invested (IntV 0)) (\<lambda>pos.
      ebind (if pos
             then ebind (py_div returns total_invested) (\<lambda>r.
                  ebind (py_mul r (IntV 100)) py_round2)
             else Inr (IntV 0)) (\<lambda>return_percentage.
      Inr [(''future_value'', future_value_r),
           (''total_invested'', total_invested_r),
           (''returns'', returns_r),
           (''return_percentage'', return_percentage)]))))))))))))"

definition budget_builder :: "doc \<Rightarrow> exn + doc" where
  "budget_builder inputs =
     (let income = dget inputs ''income'' (IntV 0);
          expenses = dget inputs ''expenses'' (Dict []) in
      ebind (dict_values expenses) (\<lambda>vs.
      ebind (py_sum vs) (\<lambda>total_expenses.
      ebind (py_sub income total_expenses) (\<lambda>savings.
      ebind (py_gt income (IntV 0)) (\<lambda>pos.
      ebind (if pos
             then ebind (py_div savings income) (\<lambda>r. py_mul r (IntV 100))
             else Inr (IntV 0)) (\<lambda>savings_rate.
      ebind (py_round2 total_expenses) (\<lambda>total_expenses_r.
      ebind (py_round2 savings) (\<lambda>savings_r.
      ebind (py_round2 savings_rate) (\<lambda>savings_rate_r.
      ebind (py_ge savings (IntV 0)) (\<lambda>nonneg.
      Inr [(''income'', income),
           (''total_expenses'', total_expenses_r),
           (''savings'', savings_r),
           (''savings_rate'', savings_rate_r),
           (''status'', Str (if nonneg then ''surplus'' else ''deficit''))]))))))))))"

text \<open>The dispatch on \<^verbatim>\<open>sim_type\<close>; \<^verbatim>\<open>result = {}\<close> stays when no branch is taken.\<close>

definition simulate :: "platform \<Rightarrow> string \<Rightarrow> doc \<Rightarrow> exn + doc" where
  "simulate pf sim_type inputs =
     (if sim_type = ''compound_interest'' then compound_interest pf inputs
      else if sim_type = ''simple_interest'' then simple_interest inputs
      else if sim_type = ''emi_calculator'' then emi_calculator inputs
      else if sim_type = ''sip_calculator'' then sip_calculator inputs
      else if sim_type = ''budget_builder'' then budget_builder inputs
      else Inr [])"

section \<open>The document store\<close>

text \<open>
  The three MongoDB collections the server uses. A collection is the list of its documents
  in insertion order; the \<^verbatim>\<open>_id\<close> field, which the server deletes from every
  document it returns, is left out. A query \<^verbatim>\<open>{k: v}\<close> matches a document whose field
  \<open>k\<close> equals \<open>v\<close> (the handlers query string fields only).
\<close>

record db =
  lessons :: "doc list"
  progress :: "doc list"
  simulations :: "doc list"

definition matches :: "string \<Rightarrow> pyval \<Rightarrow> doc \<Rightarrow> bool" where
  "matches k v d = (map_of d k = Some v)"

definition find_one :: "string \<Rightarrow> pyval \<Rightarrow> doc list \<Rightarrow> doc option" where
  "find_one k v coll = find (matches k v) coll"

text \<open>
  \<^verbatim>\<open>insert_one\<close>: the driver encodes the document to BSON before it is sent, and
  raises on a document it cannot encode (an integer beyond 64 bits, for one). What the
  encoder refuses is the platform's \<open>bson_error\<close>; when it raises, nothing is appended.
\<close>

definition insert_one :: "platform \<Rightarrow> doc \<Rightarrow> doc list \<Rightarrow> exn + doc list" where
  "insert_one pf d coll = (case bson_error pf d of Some e \<Rightarrow> Inl e | None \<Rightarrow> Inr (coll @ [d]))"

text \<open>
  \<^verbatim>\<open>update_one({k: v}, update, upsert=True)\<close>: the update is applied to the first
  document that matches; when none does, to a new document made of the query's field.
  A failing update operator leaves the collection as it was.
\<close>

fun update_one :: "string \<Rightarrow> pyval \<Rightarrow> (doc \<Rightarrow> exn + doc) \<Rightarrow> doc list \<Rightarrow> exn + doc list" where
  "update_one k v upd [] = ebind (upd [(k, v)]) (\<lambda>d'. Inr [d'])"
| "update_one k v upd (d # ds) =
     (if matches k v d then ebind (upd d) (\<lambda>d'. Inr (d' # ds))
      else ebind (update_one k v upd ds) (\<lambda>ds'. Inr (d # ds')))"

text \<open>\<^verbatim>\<open>$set\<close> with a dictionary of top-level fields.\<close>

definition set_fields :: "doc \<Rightarrow> doc \<Rightarrow> doc" where
  "set_fields fs d = fold (\<lambda>(k, v). dict_set k v) fs d"

text \<open>
  \<^verbatim>\<open>$addToSet\<close>: appends the value to the array unless the array holds it already;
  creates the array when the field is absent; fails on a field that is not an array.
\<close>

definition add_to_set :: "string \<Rightarrow> pyval \<Rightarrow> doc \<Rightarrow> exn + doc" where
  "add_to_set k v d =
     (case map_of d k of
        None \<Rightarrow> Inr (dict_set k (PList [v]) d)
      | Some (PList xs) \<Rightarrow> Inr (if v \<in> set xs then d else dict_set k (PList (xs @ [v])) d)
      | Some _ \<Rightarrow> Inl WriteError)"

text \<open>
  \<^verbatim>\<open>$set\<close> with a dotted path: the path is split at its dots, missing embedded
  documents are created, an empty component or a component below a value that is not a
  document fails. (Below an array MongoDB takes a numeric component as an index; the
  handlers never store an array on such a path.)
\<close>

fun split_dots :: "string \<Rightarrow> string list" where
  "split_dots [] = [[]]"
| "split_dots (c # cs) =
     (if c = CHR ''.'' then [] # split_dots cs
      else (case split_dots cs of [] \<Rightarrow> [[c]] | w # ws \<Rightarrow> (c # w) # ws))"

fun set_path :: "string list \<Rightarrow> pyval \<Rightarrow> doc \<Rightarrow> exn + doc" where
  "set_path [] v d = Inl WriteError"
| "set_path [k] v d = (if k = [] then Inl WriteError else Inr (dict_set k v d))"
| "set_path (k # k' # ks) v d =
     (if k = [] then Inl WriteError
      else (case map_of d k of
              None \<Rightarrow> ebind (set_path (k' # ks) v []) (\<lambda>sub. Inr (dict_set k (Dict sub) d))
            | Some (Dict sub) \<Rightarrow>
                ebind (set_path (k' # ks) v sub) (\<lambda>sub'. Inr (dict_set k (Dict sub') d))
            | Some _ \<Rightarrow> Inl WriteError))"

section \<open>Progress\<close>

definition default_user :: pyval where
  "default_user = Str ''default_user''"

text \<open>
  \<^verbatim>\<open>get_progress\<close>; \<open>now\<close> is what \<^verbatim>\<open>datetime.utcnow()\<close> returns. The record it
  inserts is a literal of strings, an empty array, an empty document and a timestamp, which
  the encoder never refuses, so the insertion is the plain append.
\<close>

definition get_progress :: "nat \<Rightarrow> db \<Rightarrow> doc \<times> db" where
  "get_progress now s =
     (case find_one ''user_id'' default_user (progress s) of
        Some p \<Rightarrow> (p, s)
      | None \<Rightarrow>
          (let p = [(''user_id'', default_user),
                    (''completed_lessons'', PList []),
                    (''quiz_scores'', Dict []),
                    (''simulations_completed'', PList []),
                    (''last_active'', DateTime now)]
           in (p, s\<lparr>progress := progress s @ [p]\<rparr>)))"

text \<open>
  \<^verbatim>\<open>complete_lesson\<close>: one upsert on the record of the default user, then the
  acknowledgement. The lesson collection is not consulted.
\<close>

definition complete_lesson :: "string \<Rightarrow> nat \<Rightarrow> db \<Rightarrow> (exn + doc) \<times> db" where
  "complete_lesson lesson_id now s =
     (case update_one ''user_id'' default_user
             (\<lambda>d. ebind (add_to_set ''completed_lessons'' (Str lesson_id) d)
                    (\<lambda>d'. Inr (set_fields [(''last_active'', DateTime now)] d')))
             (progress s) of
        Inl e \<Rightarrow> (Inl e, s)
      | Inr ps \<Rightarrow>
          (Inr [(''success'', Bool True), (''lesson_id'', Str lesson_id)],
           s\<lparr>progress := ps\<rparr>))"

text \<open>
  \<^verbatim>\<open>QuizSubmission\<close>; its field \<^verbatim>\<open>lesson_id\<close> is \<open>qs_lesson_id\<close> here, the handlers
  having a parameter of that name. \<^verbatim>\<open>submit_quiz\<close> writes the score under the path
  \<^verbatim>\<open>quiz_scores.<lesson_id>\<close>, so that a dot in the lesson id nests the score.
\<close>

record quiz_submission =
  qs_lesson_id :: string
  answers :: "(string \<times> string) list"
  score :: real

definition submit_quiz :: "quiz_submission \<Rightarrow> nat \<Rightarrow> db \<Rightarrow> (exn + doc) \<times> db" where
  "submit_quiz submission now s =
     (case update_one ''user_id'' default_user
             (\<lambda>d. ebind (set_path (''quiz_scores'' # split_dots (qs_lesson_id submission))
                             (Num (score submission)) d)
                    (\<lambda>d'. Inr (set_fields [(''last_active'', DateTime now)] d')))
             (progress s) of
        Inl e \<Rightarrow> (Inl e, s)
      | Inr ps \<Rightarrow>
          (Inr [(''score'', Num (score submission)),
                (''lesson_id'', Str (qs_lesson_id submission))],
           s\<lparr>progress := ps\<rparr>))"

section \<open>Simulations\<close>

text \<open>\<^verbatim>\<open>SimulationResult\<close>, the request body; the handler does not read \<open>outputs\<close>.\<close>

record simulation_result =
  simulation_type :: string
  inputs :: doc
  outputs :: doc

text \<open>
  \<^verbatim>\<open>calculate_simulation\<close>: an exception of the calculator leaves the handler before
  the history is written, and an exception of \<^verbatim>\<open>insert_one\<close> before the result is
  returned.
\<close>

definition calculate_simulation :: "platform \<Rightarrow> simulation_result \<Rightarrow> nat \<Rightarrow> db \<Rightarrow> (exn + doc) \<times> db" where
  "calculate_simulation pf simulation now s =
     (let sim_type = simulation_type simulation;
          ins = inputs simulation
      in case simulate pf sim_type ins of
           Inl e \<Rightarrow> (Inl e, s)
         | Inr result \<Rightarrow>
             (case insert_one pf [(''user_id'', default_user),
                                  (''simulation_type'', Str sim_type),
                                  (''inputs'', Dict ins),
                                  (''outputs'', Dict result),
                                  (''created_at'', DateTime now)]
                     (simulations s) of
                Inl e \<Rightarrow> (Inl e, s)
              | Inr sims \<Rightarrow> (Inr result, s\<lparr>simulations := sims\<rparr>)))"

section \<open>Lessons\<close>

text \<open>
  What \<^verbatim>\<open>generate_lesson_content\<close> takes from outside the repository: the
  environment variable \<^verbatim>\<open>EMERGENT_LLM_KEY\<close>, the chat collaborator (from the key,
  the session id, the system message and the prompt to the text it returns or the exception
  it raises), \<^verbatim>\<open>json.loads\<close> (\<open>None\<close> when it raises) and \<^verbatim>\<open>str\<close> on an
  exception.
\<close>

record env =
  api_key :: "string option"
  send_message :: "string \<Rightarrow> string \<Rightarrow> string \<Rightarrow> string \<Rightarrow> exn + string"
  json_loads :: "string \<Rightarrow> pyval option"
  exn_str :: "exn \<Rightarrow> string"

definition system_message :: string where
  "system_message =
     ''You are a financial education expert creating engaging, practical lessons for ages 13-25. Focus on real-world examples, simple explanations, and actionable advice.''"

definition lesson_prompt :: "string \<Rightarrow> string \<Rightarrow> string" where
  "lesson_prompt topic difficulty =
     ''Create a comprehensive financial education lesson on: '' @ topic @ [CHR 0x0A] @
     ''        '' @ [CHR 0x0A] @
     ''Difficulty level: '' @ difficulty @ [CHR 0x0A] @
     [CHR 0x0A] @
     ''Provide a JSON response with:'' @ [CHR 0x0A] @
     ''1. title: Clear, engaging title'' @ [CHR 0x0A] @
     ''2. content: 300-400 word educational content (2-5 min read)'' @ [CHR 0x0A] @
     ''3. key_points: 4-5 bullet points of main takeaways'' @ [CHR 0x0A] @
     ''4. real_example: A realistic scenario showing the concept in action'' @ [CHR 0x0A] @
     ''5. daily_tip: One specific, actionable tip they can implement today'' @ [CHR 0x0A] @
     [CHR 0x0A] @
     ''Make it practical, relatable, and focused on empowering young people to make smart money decisions.''"

text \<open>The record built when the response is not JSON.\<close>

definition fallback_lesson :: "string \<Rightarrow> string \<Rightarrow> pyval" where
  "fallback_lesson topic response =
     Dict [(''title'', Str topic),
           (''content'', Str (take 400 response)),
           (''key_points'',
              PList [Str ''Understand the basics'', Str ''Apply in real life'', Str ''Track progress'']),
           (''real_example'', Str ''Example scenario based on this concept.''),
           (''daily_tip'', Str ''Start small and stay consistent.'')]"

text \<open>
  \<^verbatim>\<open>generate_lesson_content\<close>. The whole body is inside \<^verbatim>\<open>try\<close>, so the
  \<^verbatim>\<open>HTTPException\<close> raised for a missing key is caught by
  \<^verbatim>\<open>except Exception as e\<close> like every other exception and raised again in the
  handler's own wrapping. \<^verbatim>\<open>not api_key\<close> holds for an unset and for an empty variable.
\<close>

definition generate_lesson_content :: "env \<Rightarrow> string \<Rightarrow> string \<Rightarrow> exn + pyval" where
  "generate_lesson_content e topic difficulty =
     (case (case api_key e of
              None \<Rightarrow> Inl (HTTPException 500 ''API key not configured'')
            | Some key \<Rightarrow>
                if key = [] then Inl (HTTPException 500 ''API key not configured'')
                else ebind (send_message e key (''lesson_'' @ topic) system_message
                              (lesson_prompt topic difficulty)) (\<lambda>response.
                     Inr (case json_loads e response of
                            Some lesson_data \<Rightarrow> lesson_data
                          | None \<Rightarrow> fallback_lesson topic response))) of
        Inl ex \<Rightarrow> Inl (HTTPException 500 (''Failed to generate lesson: '' @ exn_str e ex))
      | Inr lesson_data \<Rightarrow> Inr lesson_data)"

text \<open>
  \<^verbatim>\<open>str.lower\<close> and \<^verbatim>\<open>str.replace\<close> with one-character arguments, on ASCII text
  (a character outside \<^verbatim>\<open>A\<close>..\<^verbatim>\<open>Z\<close> is left as it is).
\<close>

definition lower_char :: "char \<Rightarrow> char" where
  "lower_char c = (let n = of_char c :: nat in if 65 \<le> n \<and> n \<le> 90 then char_of (n + 32) else c)"

definition py_lower :: "string \<Rightarrow> string" where
  "py_lower s = map lower_char s"

definition py_replace :: "char \<Rightarrow> char \<Rightarrow> string \<Rightarrow> string" where
  "py_replace a b s = map (\<lambda>c. if c = a then b else c) s"

text \<open>\<^verbatim>\<open>x.get(k, default)\<close> on a value that may not be a dictionary.\<close>

definition py_get :: "pyval \<Rightarrow> string \<Rightarrow> pyval \<Rightarrow> exn + pyval" where
  "py_get x k dflt = (case x of Dict d \<Rightarrow> Inr (dget d k dflt) | _ \<Rightarrow> Inl AttributeError)"

record lesson_generate_request =
  module_id :: string
  topic :: string
  difficulty :: string

definition make_lesson_id :: "lesson_generate_request \<Rightarrow> string" where
  "make_lesson_id request =
     module_id request @ ''_'' @ py_replace (CHR '' '') (CHR ''_'') (py_lower (topic request))"

definition make_lesson :: "lesson_generate_request \<Rightarrow> pyval \<Rightarrow> nat \<Rightarrow> exn + doc" where
  "make_lesson request lesson_content now =
     ebind (py_get lesson_content ''title'' (Str (topic request))) (\<lambda>title.
     ebind (py_get lesson_content ''content'' (Str [])) (\<lambda>content.
     ebind (py_get lesson_content ''key_points'' (PList [])) (\<lambda>key_points.
     ebind (py_get lesson_content ''real_example'' (Str [])) (\<lambda>real_example.
     ebind (py_get lesson_content ''daily_tip'' (Str [])) (\<lambda>daily_tip.
     Inr [(''id'', Str (make_lesson_id request)),
          (''module_id'', Str (module_id request)),
          (''title'', title),
          (''content'', content),
          (''duration_minutes'', IntV 3),
          (''key_points'', key_points),
          (''real_example'', real_example),
          (''quiz_questions'', PList []),
          (''daily_tip'', daily_tip),
          (''order'', IntV 1),
          (''created_at'', DateTime now)])))))"

text \<open>\<^verbatim>\<open>generate_lesson\<close>: the lesson is upserted under its id and returned.\<close>

definition generate_lesson :: "env \<Rightarrow> lesson_generate_request \<Rightarrow> nat \<Rightarrow> db \<Rightarrow> (exn + doc) \<times> db" where
  "generate_lesson e request now s =
     (case generate_lesson_content e (topic request) (difficulty request) of
        Inl ex \<Rightarrow> (Inl ex, s)
      | Inr lesson_content \<Rightarrow>
          (case make_lesson request lesson_content now of
             Inl ex \<Rightarrow> (Inl ex, s)
           | Inr lesson \<Rightarrow>
               (case update_one ''id'' (Str (make_lesson_id request))
                       (\<lambda>d. Inr (set_fields lesson d)) (lessons s) of
                  Inl ex \<Rightarrow> (Inl ex, s)
                | Inr ls \<Rightarrow> (Inr lesson, s\<lparr>lessons := ls\<rparr>))))"

definition get_lesson :: "string \<Rightarrow> db \<Rightarrow> exn + doc" where
  "get_lesson lesson_id s =
     (case find_one ''id'' (Str lesson_id) (lessons s) of
        None \<Rightarrow> Inl (HTTPException 404 ''Lesson not found'')
      | Some lesson \<Rightarrow> Inr lesson)"

definition get_module_lessons :: "string \<Rightarrow> db \<Rightarrow> doc list" where
  "get_module_lessons mid s = take 100 (filter (matches ''module_id'' (Str mid)) (lessons s))"

section \<open>Views of the store used in the statements\<close>

definition empty_db :: db where
  "empty_db = \<lparr>lessons = [], progress = [], simulations = []\<rparr>"

text \<open>The progress record that every handler addresses, and one of its fields.\<close>

definition user_progress :: "db \<Rightarrow> doc option" where
  "user_progress s = find_one ''user_id'' default_user (progress s)"

definition progress_field :: "string \<Rightarrow> db \<Rightarrow> pyval option" where
  "progress_field k s = (case user_progress s of None \<Rightarrow> None | Some d \<Rightarrow> map_of d k)"

text \<open>
  The \<^verbatim>\<open>completed_lessons\<close> field of the user's record is absent or an array
  (\<open>completed_is_array\<close>), and that array has no duplicates (\<open>completed_wf\<close>).
\<close>

definition completed_is_array :: "db \<Rightarrow> bool" where
  "completed_is_array s =
     (case progress_field ''completed_lessons'' s of
        None \<Rightarrow> True
      | Some (PList xs) \<Rightarrow> True
      | Some _ \<Rightarrow> False)"

definition completed_wf :: "db \<Rightarrow> bool" where
  "completed_wf s =
     (case progress_field ''completed_lessons'' s of
        None \<Rightarrow> True
      | Some (PList xs) \<Rightarrow> distinct xs
      | Some _ \<Rightarrow> False)"

text \<open>The array of completed lesson ids of the user's record, empty when there is none.\<close>

definition completed_list :: "db \<Rightarrow> pyval list" where
  "completed_list s =
     (case progress_field ''completed_lessons'' s of Some (PList xs) \<Rightarrow> xs | _ \<Rightarrow> [])"

text \<open>The states the handlers can build from the empty store.\<close>

inductive reachable :: "db \<Rightarrow> bool" where
  reach_empty: "reachable empty_db"
| reach_get_progress: "reachable s \<Longrightarrow> reachable (snd (get_progress now s))"
| reach_complete_lesson: "reachable s \<Longrightarrow> reachable (snd (complete_lesson lesson_id now s))"
| reach_submit_quiz: "reachable s \<Longrightarrow> reachable (snd (submit_quiz submission now s))"
| reach_calculate_simulation:
    "reachable s \<Longrightarrow> reachable (snd (calculate_simulation pf simulation now s))"
| reach_generate_lesson: "reachable s \<Longrightarrow> reachable (snd (generate_lesson e request now s))"

section \<open>A reference platform\<close>

text \<open>
  A platform to run the handlers on: a C library whose \<^verbatim>\<open>pow\<close> is correctly rounded
  (the float nearest to the real power, a range error when that is an infinity), and a
  BSON encoder that refuses an integer outside 64 bits with \<^verbatim>\<open>OverflowError\<close> and
  nothing else.
\<close>

definition pow_cr :: "real \<Rightarrow> real \<Rightarrow> real option" where
  "pow_cr x y = (case rnd (x powr y) of Fin z \<Rightarrow> Some z | _ \<Rightarrow> None)"

fun int_out_of_range :: "pyval \<Rightarrow> bool" where
  "int_out_of_range (IntV i) = (i < - (2 ^ 63) \<or> 2 ^ 63 \<le> i)"
| "int_out_of_range (PList vs) = list_ex int_out_of_range vs"
| "int_out_of_range (Dict kvs) = list_ex int_out_of_range (map snd kvs)"
| "int_out_of_range v = False"

definition bson_int64 :: "doc \<Rightarrow> exn option" where
  "bson_int64 d = (if int_out_of_range (Dict d) then Some OverflowError else None)"

definition reference_platform :: platform where
  "reference_platform = \<lparr>pow_libm = pow_cr, bson_error = bson_int64\<rparr>"



text \<open>
  The real value of a request input that is a finite float, or an integer (or boolean)
  that a float represents exactly.
\<close>

fun fin_val :: "pyval \<Rightarrow> real option" where
  "fin_val (Num x) = Some x"
| "fin_val (IntV i) = (if \<bar>i\<bar> \<le> 2 ^ 53 then Some (of_int i) else None)"
| "fin_val (Bool b) = Some (if b then 1 else 0)"
| "fin_val v = None"


section \<open>Basic facts\<close>

lemma ebind_Inr [simp]: "ebind (Inr v) f = f v"
  by (simp add: ebind_def)

lemma ebind_Inl [simp]: "ebind (Inl e) f = Inl e"
  by (simp add: ebind_def)

lemma arith_Num [simp]: "arith f (Num x) (Num y) = f x y"
  by (simp add: arith_def)

lemma py_round2_Num [simp]: "py_round2 (Num x) = Inr (Num (round2 x))"
  by (simp add: py_round2_def)

lemmas py_ops = py_add_def py_sub_def py_mul_def py_div_def py_gt_def py_ge_def py_pow_def

lemma pow_real_zero [simp]: "pow_real x 0 = Inr 1"
  by (simp add: pow_real_def)

lemma dget_Cons [simp]:
  "dget ((k, v) # d) k' dflt = (if k = k' then v else dget d k' dflt)"
  by (simp add: dget_def)

lemma dget_Nil [simp]: "dget [] k dflt = dflt"
  by (simp add: dget_def)

section \<open>The EMI calculator with zero months\<close>

text \<open>
  In the branch for a rate that is not positive, \<^verbatim>\<open>months > 0\<close> guards the division:
  with zero months the instalment is 0.
\<close>

lemma emi_zero_months_nonpositive_rate:
  assumes "R \<le> 0"
  shows "emi_calculator [(''principal'', Num P), (''rate'', Num R), (''months'', IntV 0)] =
           Inr [(''emi'', Num 0), (''total_payment'', Num 0),
                (''total_interest'', Num (round2 (- P))), (''principal'', Num P)]"
  using assms
  by (simp add: emi_calculator_def py_ops arith_def py_round2_def Let_def round2_def
        round_half_even_def)

text \<open>
  C1. The claim: with \<open>months = 0\<close> the EMI calculator raises no division fault and
  returns \<open>emi = 0\<close>, whatever the rate. The branch for a positive rate has no such guard:
  \<^verbatim>\<open>(1 + rate)**0 - 1\<close> is 0 and the division raises \<^verbatim>\<open>ZeroDivisionError\<close>, for every
  principal and every positive rate, given as integers or as floats; no result is
  returned and nothing is logged.
\<close>

theorem emi_zero_months_positive_rate_raises:
  assumes "num_of p = Some P" and "num_of r = Some R" and "0 < R" and "num_of m = Some 0"
  shows "calculate_simulation pf
           \<lparr>simulation_type = ''emi_calculator'',
              inputs = [(''principal'', p), (''rate'', r), (''months'', m)],
              outputs = out\<rparr> now s
         = (Inl ZeroDivisionError, s)"
proof -
  have "emi_calculator [(''principal'', p), (''rate'', r), (''months'', m)]
          = Inl ZeroDivisionError"
    using assms by (simp add: emi_calculator_def py_ops arith_def Let_def)
  then show ?thesis
    by (simp add: calculate_simulation_def simulate_def)
qed

theorem emi_zero_months_positive_rate_raises_witness:
  "num_of (IntV 1000) = Some 1000 \<and> num_of (IntV 10) = Some 10 \<and> (0::real) < 10 \<and>
   num_of (IntV 0) = Some 0 \<and>
   calculate_simulation reference_platform
     \<lparr>simulation_type = ''emi_calculator'',
        inputs = [(''principal'', IntV 1000), (''rate'', IntV 10), (''months'', IntV 0)],
        outputs = []\<rparr> 0 \<lparr>lessons = [], progress = [], simulations = []\<rparr>
   = (Inl ZeroDivisionError, \<lparr>lessons = [], progress = [], simulations = []\<rparr>)"
  using emi_zero_months_positive_rate_raises
          [of "IntV 1000" 1000 "IntV 10" 10 "IntV 0" reference_platform "[]" 0
              "\<lparr>lessons = [], progress = [], simulations = []\<rparr>"]
  by simp

section \<open>An unrecognized simulation kind\<close>

text \<open>
  The history entry that \<open>calculate_simulation\<close> hands to the store.
\<close>

lemma calculate_simulation_unrecognized:
  assumes "t \<notin> {''compound_interest'', ''simple_interest'', ''emi_calculator'',
                 ''sip_calculator'', ''budget_builder''}"
  shows "calculate_simulation pf \<lparr>simulation_type = t, inputs = ins, outputs = out\<rparr> now s
         = (case bson_error pf [(''user_id'', Str ''default_user''),
                                (''simulation_type'', Str t),
                                (''inputs'', Dict ins),
                                (''outputs'', Dict []),
                                (''created_at'', DateTime now)] of
              Some e \<Rightarrow> (Inl e, s)
            | None \<Rightarrow> (Inr [],
                 s\<lparr>simulations := simulations s @
                      [[(''user_id'', Str ''default_user''),
                        (''simulation_type'', Str t),
                        (''inputs'', Dict ins),
                        (''outputs'', Dict []),
                        (''created_at'', DateTime now)]]\<rparr>))"
  using assms
  by (simp add: calculate_simulation_def simulate_def insert_one_def default_user_def
           split: option.splits)

text \<open>
  C2, as stated, fails. The claim: for every \<open>simulation_type\<close> that is none of the five
  kinds, and every inputs mapping, \<open>calculate_simulation\<close> returns the empty mapping, not
  an error, and appends one entry to the history. The inputs mapping is stored with the
  entry, and the store's encoder refuses some mappings: on the reference platform, with
  the integer \<open>2^63\<close> among the inputs, the handler raises \<^verbatim>\<open>OverflowError\<close> and the history
  stays empty.
\<close>

theorem unrecognized_kind_unencodable_inputs_counterexample:
  "calculate_simulation reference_platform
     \<lparr>simulation_type = ''loan_payoff'',
        inputs = [(''principal'', IntV 9223372036854775808)],
        outputs = []\<rparr> 7
     \<lparr>lessons = [], progress = [], simulations = []\<rparr>
   = (Inl OverflowError, \<lparr>lessons = [], progress = [], simulations = []\<rparr>)"
  by (simp add: calculate_simulation_def simulate_def insert_one_def default_user_def
        reference_platform_def bson_int64_def)

text \<open>
  C2, amended. For a \<open>simulation_type\<close> that is none of the five kinds, and an inputs
  mapping with which the store's encoder accepts the history entry,
  \<open>calculate_simulation\<close> returns the empty mapping, not an error, and appends one entry
  to the simulation history: the user id, the type, the inputs, the empty outputs and
  the timestamp.
\<close>

theorem unrecognized_kind_empty_result_logged:
  assumes "t \<notin> {''compound_interest'', ''simple_interest'', ''emi_calculator'',
                 ''sip_calculator'', ''budget_builder''}"
    and "bson_error pf [(''user_id'', Str ''default_user''),
                        (''simulation_type'', Str t),
                        (''inputs'', Dict ins),
                        (''outputs'', Dict []),
                        (''created_at'', DateTime now)] = None"
  shows "calculate_simulation pf \<lparr>simulation_type = t, inputs = ins, outputs = out\<rparr> now s
         = (Inr [],
            s\<lparr>simulations := simulations s @
                 [[(''user_id'', Str ''default_user''),
                   (''simulation_type'', Str t),
                   (''inputs'', Dict ins),
                   (''outputs'', Dict []),
                   (''created_at'', DateTime now)]]\<rparr>)"
  using assms
  by (simp add: calculate_simulation_def simulate_def insert_one_def default_user_def)

theorem unrecognized_kind_empty_result_logged_witness:
  "''loan_payoff'' \<notin> {''compound_interest'', ''simple_interest'', ''emi_calculator'',
                 ''sip_calculator'', ''budget_builder''} \<and>
   bson_error reference_platform
     [(''user_id'', Str ''default_user''),
      (''simulation_type'', Str ''loan_payoff''),
      (''inputs'', Dict [(''principal'', IntV 5)]),
      (''outputs'', Dict []),
      (''created_at'', DateTime 7)] = None \<and>
   calculate_simulation reference_platform
     \<lparr>simulation_type = ''loan_payoff'', inputs = [(''principal'', IntV 5)], outputs = []\<rparr> 7
     \<lparr>lessons = [], progress = [], simulations = []\<rparr>
   = (Inr [],
      \<lparr>lessons = [], progress = [],
         simulations = [[(''user_id'', Str ''default_user''),
                   (''simulation_type'', Str ''loan_payoff''),
                   (''inputs'', Dict [(''principal'', IntV 5)]),
                   (''outputs'', Dict []),
                   (''created_at'', DateTime 7)]]\<rparr>)"
  using unrecognized_kind_empty_result_logged
          [of "''loan_payoff''" reference_platform "[(''principal'', IntV 5)]" 7 "[]"
              "\<lparr>lessons = [], progress = [], simulations = []\<rparr>"]
  by (simp add: reference_platform_def bson_int64_def)

section \<open>Rounding to a float\<close>

lemma round_half_even_near:
  assumes "\<bar>y - of_int n\<bar> < 1 / 2"
  shows "round_half_even y = n"
proof -
  have "\<lfloor>y\<rfloor> = n \<or> \<lfloor>y\<rfloor> = n - 1"
    using assms by (auto simp: floor_eq_iff abs_if split: if_splits)
  then show ?thesis
    using assms by (auto simp: round_half_even_def Let_def abs_if split: if_splits)
qed

lemma round_half_even_of_int [simp]: "round_half_even (of_int n) = n"
  by (rule round_half_even_near) simp

lemma round_half_even_bounds:
  "of_int (round_half_even y) \<le> y + 1 / 2" "y - 1 / 2 \<le> of_int (round_half_even y)"
  by (auto simp: round_half_even_def Let_def) linarith+

lemma floor_log2_eq:
  assumes "2 powi e \<le> x" "x < 2 powi (e + 1)"
  shows "\<lfloor>log 2 x\<rfloor> = e"
proof -
  have "0 < (2::real) powi e" by simp
  with assms(1) have "0 < x" by linarith
  moreover have "2 powr (real_of_int e + 1) = (2::real) powi (e + 1)"
    using powr_real_of_int' [of 2 "e + 1"] by simp
  moreover have "2 powr (real_of_int e) = (2::real) powi e"
    using powr_real_of_int' [of 2 e] by simp
  ultimately show ?thesis
    using assms by (subst floor_log_eq_powr_iff) auto
qed

text \<open>Every nonzero real lies in one binade.\<close>

lemma binade:
  assumes "x \<noteq> 0"
  shows "2 powi \<lfloor>log 2 \<bar>x\<bar>\<rfloor> \<le> \<bar>x\<bar>" "\<bar>x\<bar> < 2 powi (\<lfloor>log 2 \<bar>x\<bar>\<rfloor> + 1)"
proof -
  from assms have pos: "0 < \<bar>x\<bar>" by simp
  have "2 powr (of_int \<lfloor>log 2 \<bar>x\<bar>\<rfloor>) \<le> 2 powr (log 2 \<bar>x\<bar>)"
    by (intro powr_mono) auto
  then show "2 powi \<lfloor>log 2 \<bar>x\<bar>\<rfloor> \<le> \<bar>x\<bar>"
    using pos by (simp add: powr_real_of_int')
  have "2 powr (log 2 \<bar>x\<bar>) < 2 powr (of_int (\<lfloor>log 2 \<bar>x\<bar>\<rfloor> + 1))"
    by (intro powr_less_mono) auto
  then show "\<bar>x\<bar> < 2 powi (\<lfloor>log 2 \<bar>x\<bar>\<rfloor> + 1)"
    using pos powr_real_of_int' [of 2 "\<lfloor>log 2 \<bar>x\<bar>\<rfloor> + 1"] by simp
qed

lemma fl_cert:
  assumes "- 1022 \<le> e" "2 powi e \<le> \<bar>x\<bar>" "\<bar>x\<bar> < 2 powi (e + 1)"
    and "q = 2 powi (e - 52)" and "\<bar>x / q - of_int n\<bar> < 1 / 2"
  shows "fl x = of_int n * q"
proof -
  have "0 < (2::real) powi e" by simp
  with assms(2) have "0 < \<bar>x\<bar>" by linarith
  then have x0: "x \<noteq> 0" by simp
  have "\<lfloor>log 2 \<bar>x\<bar>\<rfloor> = e" using assms(2,3) by (rule floor_log2_eq)
  with assms(1,4) x0 have "fl x = of_int (round_half_even (x / q)) * q"
    by (simp add: fl_def Let_def max_def)
  with round_half_even_near [OF assms(5)] show ?thesis by simp
qed

text \<open>The rounding error: half a unit in the last place.\<close>

lemma fl_error_abs:
  assumes "x \<noteq> 0"
  shows "\<bar>fl x - x\<bar> \<le> 2 powi (max \<lfloor>log 2 \<bar>x\<bar>\<rfloor> (- 1022) - 52) / 2"
proof -
  define q :: real where "q = 2 powi (max \<lfloor>log 2 \<bar>x\<bar>\<rfloor> (- 1022) - 52)"
  have q: "0 < q" by (simp add: q_def)
  have f: "fl x = of_int (round_half_even (x / q)) * q"
    using assms by (simp add: fl_def Let_def q_def)
  have a: "\<bar>of_int (round_half_even (x / q)) - x / q\<bar> \<le> 1 / 2"
    using round_half_even_bounds [of "x / q"] by linarith
  have "fl x - x = (of_int (round_half_even (x / q)) - x / q) * q"
    using q by (simp add: f algebra_simps)
  then have "\<bar>fl x - x\<bar> = \<bar>of_int (round_half_even (x / q)) - x / q\<bar> * q"
    using q by (simp add: abs_mult)
  also have "\<dots> \<le> 1 / 2 * q"
    using a q by (intro mult_right_mono) auto
  finally show ?thesis by (simp add: q_def)
qed

lemma fl_error:
  assumes "2 powi (- 1022) \<le> \<bar>x\<bar>"
  shows "\<bar>fl x - x\<bar> \<le> \<bar>x\<bar> / 2 ^ 53"
proof -
  have "0 < (2::real) powi (- 1022)" by simp
  with assms have pos: "0 < \<bar>x\<bar>" by linarith
  then have x0: "x \<noteq> 0" by simp
  define e where "e = \<lfloor>log 2 \<bar>x\<bar>\<rfloor>"
  have "- 1022 \<le> e"
  proof (rule ccontr)
    assume "\<not> - 1022 \<le> e"
    then have "e + 1 \<le> - 1022" by simp
    then have "(2::real) powi (e + 1) \<le> 2 powi (- 1022)"
      by (intro power_int_increasing) auto
    with binade(2) [OF x0] assms show False by (simp add: e_def)
  qed
  then have m: "max e (- 1022) = e" by simp
  have "\<bar>fl x - x\<bar> \<le> 2 powi (e - 52) / 2"
    using fl_error_abs [OF x0] by (simp add: e_def [symmetric] m)
  also have "2 powi (e - 52) / 2 = 2 powi e / (2::real) ^ 53"
    by (simp add: power_int_diff)
  also have "\<dots> \<le> \<bar>x\<bar> / 2 ^ 53"
    using binade(1) [OF x0] by (simp add: e_def divide_right_mono)
  finally show ?thesis .
qed

lemma fl_zero [simp]: "fl 0 = 0"
  by (simp add: fl_def)

text \<open>A float is left as it is: \<open>n * 2^k\<close> with \<open>n\<close> of at most 53 bits.\<close>

lemma fl_exact:
  assumes "x = of_int n * 2 powi k" and "\<bar>n\<bar> < 2 ^ 53" and "- 1074 \<le> k"
  shows "fl x = x"
proof (cases "x = 0")
  case True
  then show ?thesis by simp
next
  case False
  define e where "e = max \<lfloor>log 2 \<bar>x\<bar>\<rfloor> (- 1022)"
  have "\<bar>x\<bar> = of_int \<bar>n\<bar> * 2 powi k"
    by (simp add: assms(1) abs_mult)
  also have "\<dots> < 2 ^ 53 * 2 powi k"
  proof -
    have "(of_int \<bar>n\<bar> :: real) < of_int (2 ^ 53)" using assms(2) by (simp only: of_int_less_iff)
    then show ?thesis by (intro mult_strict_right_mono) auto
  qed
  also have "\<dots> = 2 powi (k + 53)"
    by (simp add: power_int_add)
  finally have up: "\<bar>x\<bar> < 2 powi (k + 53)" .
  have "\<lfloor>log 2 \<bar>x\<bar>\<rfloor> < k + 53"
  proof (rule ccontr)
    assume "\<not> \<lfloor>log 2 \<bar>x\<bar>\<rfloor> < k + 53"
    then have "(2::real) powi (k + 53) \<le> 2 powi \<lfloor>log 2 \<bar>x\<bar>\<rfloor>"
      by (intro power_int_increasing) auto
    with binade(1) [OF False] up show False by linarith
  qed
  with assms(3) have le: "e \<le> k + 52" by (simp add: e_def)
  define m where "m = n * 2 ^ nat (k + 52 - e)"
  have "x / 2 powi (e - 52) = of_int n * 2 powi (k - (e - 52))"
    by (simp add: assms(1) power_int_diff)
  also have "2 powi (k - (e - 52)) = (2::real) ^ nat (k + 52 - e)"
    using le by (simp add: power_int_def algebra_simps)
  finally have "x / 2 powi (e - 52) = of_int m" by (simp add: m_def)
  then have "fl x = of_int m * 2 powi (e - 52)"
    using False by (simp add: fl_def Let_def e_def [symmetric])
  also have "of_int m = x / 2 powi (e - 52)"
    using \<open>x / 2 powi (e - 52) = of_int m\<close> by simp
  finally show ?thesis by simp
qed

lemma fl_of_int:
  assumes "\<bar>i\<bar> \<le> 2 ^ 53"
  shows "fl (of_int i) = of_int i"
proof (cases "\<bar>i\<bar> < 2 ^ 53")
  case True
  then show ?thesis by (intro fl_exact [of _ i 0]) auto
next
  case False
  with assms have "\<bar>i\<bar> = 2 ^ 53" by simp
  then have "i = 2 ^ 53 \<or> i = - (2 ^ 53)" by (auto simp: abs_if split: if_splits)
  then have "of_int i = of_int (if 0 < i then 1 else - 1) * (2::real) powi 53"
    by auto
  then show ?thesis by (intro fl_exact [of _ "if 0 < i then 1 else - 1" 53]) auto
qed

lemma fl_nonneg: "0 \<le> x \<Longrightarrow> 0 \<le> fl x"
proof -
  assume x: "0 \<le> x"
  have "0 \<le> round_half_even y" if "0 \<le> y" for y
    using that by (auto simp: round_half_even_def Let_def)
  then show ?thesis
    using x by (auto simp: fl_def Let_def intro!: mult_nonneg_nonneg divide_nonneg_pos)
qed

lemma round_half_even_mono: "x \<le> y \<Longrightarrow> round_half_even x \<le> round_half_even y"
proof -
  assume xy: "x \<le> y"
  have fl: "\<lfloor>x\<rfloor> \<le> \<lfloor>y\<rfloor>" using xy by (rule floor_mono)
  have lo: "\<lfloor>z\<rfloor> \<le> round_half_even z" and hi: "round_half_even z \<le> \<lfloor>z\<rfloor> + 1" for z
    by (simp_all add: round_half_even_def Let_def)
  show ?thesis
  proof (cases "\<lfloor>x\<rfloor> = \<lfloor>y\<rfloor>")
    case True
    then show ?thesis using xy
      by (auto simp: round_half_even_def Let_def)
  next
    case False
    with fl have "\<lfloor>x\<rfloor> + 1 \<le> \<lfloor>y\<rfloor>" by simp
    with lo[of y] hi[of x] show ?thesis by linarith
  qed
qed

text \<open>Rounding does not cross a power of two.\<close>

lemma fl_ge_pow2:
  assumes "2 powi e \<le> x" and "- 1022 \<le> e"
  shows "2 powi e \<le> fl x"
proof -
  have p: "0 < (2::real) powi e" by simp
  with assms(1) have pos: "0 < x" by linarith
  define e0 where "e0 = \<lfloor>log 2 \<bar>x\<bar>\<rfloor>"
  define q :: real where "q = 2 powi (e0 - 52)"
  have q: "0 < q" by (simp add: q_def)
  have "e \<le> e0"
  proof (rule ccontr)
    assume "\<not> e \<le> e0"
    then have "(2::real) powi (e0 + 1) \<le> 2 powi e"
      by (intro power_int_increasing) auto
    with binade(2) [of x] pos assms(1) show False by (simp add: e0_def)
  qed
  with assms(2) have m: "max e0 (- 1022) = e0" by simp
  have f: "fl x = of_int (round_half_even (x / q)) * q"
    using pos m by (simp add: fl_def Let_def q_def e0_def)
  have "2 powi e0 \<le> x" using binade(1) [of x] pos by (simp add: e0_def)
  then have "2 powi e0 / q \<le> x / q" using q by (simp add: divide_right_mono)
  moreover define N :: int where "N = 2 ^ 52"
  moreover have Nq: "2 powi e0 / q = of_int N"
    by (simp add: q_def power_int_diff N_def)
  ultimately have "of_int N \<le> x / q" by simp
  from round_half_even_mono [OF this]
  have "N \<le> round_half_even (x / q)" by (simp only: round_half_even_of_int)
  then have "(of_int N :: real) \<le> of_int (round_half_even (x / q))"
    by (simp only: of_int_le_iff)
  then have "of_int N * q \<le> fl x"
    using q by (simp only: f mult_right_mono)
  moreover have "of_int N * q = 2 powi e0"
    using Nq q by (simp add: field_simps)
  moreover have "(2::real) powi e \<le> 2 powi e0"
    using \<open>e \<le> e0\<close> by (intro power_int_increasing) auto
  ultimately show ?thesis by linarith
qed

lemma fl_ge_one: "1 \<le> x \<Longrightarrow> 1 \<le> fl x"
  using fl_ge_pow2 [of 0 x] by simp

lemma fl_le_pow2:
  assumes "x \<le> 2 powi e" and "- 1074 \<le> e"
  shows "fl x \<le> 2 powi e"
proof (cases "0 < x")
  case False
  then have "- x \<ge> 0" by simp
  have "fl x \<le> 0"
  proof -
    have "round_half_even y \<le> 0" if "y \<le> 0" for y
      using that by (auto simp: round_half_even_def Let_def)
    then show ?thesis
      using False by (auto simp: fl_def Let_def mult_le_0_iff divide_le_0_iff)
  qed
  moreover have "0 < (2::real) powi e" by simp
  ultimately show ?thesis by linarith
next
  case pos: True
  define e0 where "e0 = \<lfloor>log 2 \<bar>x\<bar>\<rfloor>"
  define e' where "e' = max e0 (- 1022)"
  define q :: real where "q = 2 powi (e' - 52)"
  have q: "0 < q" by (simp add: q_def)
  have f: "fl x = of_int (round_half_even (x / q)) * q"
    using pos by (simp add: fl_def Let_def q_def e0_def e'_def)
  have "e0 \<le> e"
  proof (rule ccontr)
    assume "\<not> e0 \<le> e"
    then have "(2::real) powi (e + 1) \<le> 2 powi e0"
      by (intro power_int_increasing) auto
    moreover have "(2::real) powi e < 2 powi (e + 1)"
      by (intro power_int_strict_increasing) auto
    ultimately show False using binade(1) [of x] pos assms(1) by (simp add: e0_def)
  qed
  with assms(2) have le: "e' \<le> e + 52" by (simp add: e'_def)
  have "x / q \<le> 2 powi e / q" using q assms(1) by (simp add: divide_right_mono)
  moreover define N :: int where "N = 2 ^ nat (e + 52 - e')"
  moreover have Nq: "2 powi e / q = of_int N"
  proof -
    have "2 powi e / q = (2::real) powi (e - (e' - 52))"
      unfolding q_def by (subst power_int_diff) simp_all
    also have "e - (e' - 52) = int (nat (e + 52 - e'))" using le by simp
    also have "(2::real) powi int (nat (e + 52 - e')) = 2 ^ nat (e + 52 - e')"
      by (rule power_int_of_nat)
    finally show ?thesis by (simp add: N_def)
  qed
  ultimately have "x / q \<le> of_int N" by simp
  from round_half_even_mono [OF this]
  have "round_half_even (x / q) \<le> N" by (simp only: round_half_even_of_int)
  then have "(of_int (round_half_even (x / q)) :: real) \<le> of_int N"
    by (simp only: of_int_le_iff)
  then have "fl x \<le> of_int N * q"
    using q by (simp only: f mult_right_mono)
  also have "\<dots> = 2 powi e"
    using Nq q by (simp add: field_simps)
  finally show ?thesis .
qed

lemma fl_neg: "fl (- x) = - fl x"
proof -
  have "round_half_even (- y) = - round_half_even y" for y
  proof -
    have c: "\<lfloor>- y\<rfloor> = - \<lceil>y\<rceil>" by (simp add: ceiling_def)
    show ?thesis
    proof (cases "y = of_int \<lfloor>y\<rfloor>")
      case True
      then obtain n where "y = of_int n" by blast
      then show ?thesis using round_half_even_of_int [of "- n"] by simp
    next
      case False
      then have "\<lceil>y\<rceil> = \<lfloor>y\<rfloor> + 1" by (simp add: ceiling_altdef)
      with c have fn: "\<lfloor>- y\<rfloor> = - \<lfloor>y\<rfloor> - 1" by simp
      show ?thesis
        by (auto simp: round_half_even_def Let_def fn)
    qed
  qed
  then show ?thesis by (simp add: fl_def Let_def)
qed

lemma rnd_Fin:
  assumes "\<bar>x\<bar> \<le> 2 powi 1023"
  shows "rnd x = Fin (fl x)"
proof -
  have "fl x \<le> 2 powi 1023" using fl_le_pow2 [of x 1023] assms by simp
  moreover have "- fl x \<le> 2 powi 1023"
    using fl_le_pow2 [of "- x" 1023] assms by (simp add: fl_neg)
  ultimately have "\<bar>fl x\<bar> \<le> 2 powi 1023" by simp
  moreover have "(2::real) powi 1023 < 2 ^ 1024"
    by (simp add: power_int_def)
  ultimately show ?thesis by (simp add: rnd_def Let_def)
qed

lemma rnd_of_int: "\<bar>i\<bar> \<le> 2 ^ 53 \<Longrightarrow> rnd (of_int i) = Fin (of_int i)"
proof -
  assume a: "\<bar>i\<bar> \<le> 2 ^ 53"
  then have "\<bar>of_int i :: real\<bar> \<le> of_int (2 ^ 53)"
    by (simp only: of_int_abs [symmetric] of_int_le_iff)
  also have "\<dots> \<le> 2 powi 1023" by (simp add: power_int_def)
  finally show ?thesis using fl_of_int [OF a] by (simp add: rnd_Fin)
qed

lemma rnd_cert:
  assumes "- 1022 \<le> e" "e \<le> 1022" "2 powi e \<le> \<bar>x\<bar>" "\<bar>x\<bar> < 2 powi (e + 1)"
    and "q = 2 powi (e - 52)" and "\<bar>x / q - of_int n\<bar> < 1 / 2" and "y = of_int n * q"
  shows "rnd x = Fin y"
proof -
  have "fl x = y" using fl_cert [OF assms(1,3,4,5,6)] assms(7) by simp
  moreover have "(2::real) powi (e + 1) \<le> 2 powi 1023"
    using assms(2) by (intro power_int_increasing) auto
  with assms(4) have "\<bar>x\<bar> \<le> 2 powi 1023" by linarith
  ultimately show ?thesis by (simp add: rnd_Fin)
qed

section \<open>The operators on finite numbers\<close>

lemma of_fval_facts [simp]:
  "is_num (of_fval f)" "as_int (of_fval f) = None" "to_float (of_fval f) = Inr f"
  by (cases f; simp)+

lemma exact_val_of_fval [simp]: "exact_val (of_fval f) = f"
  by (cases f) simp_all

lemma fin_val_facts:
  assumes "fin_val a = Some x"
  shows "is_num a" and "to_float a = Inr (Fin x)" and "exact_val a = Fin x"
  using assms
  by (cases a; auto simp: int_to_float_def rnd_of_int split: if_splits)+

lemma fin_val_as_int:
  assumes "fin_val a = Some x" and "as_int a = Some i"
  shows "x = of_int i" and "\<bar>i\<bar> \<le> 2 ^ 53"
  using assms by (cases a; auto split: if_splits)+

lemma float_op_eq:
  "to_float a = Inr f \<Longrightarrow> to_float b = Inr g \<Longrightarrow> float_op ff a b = ff f g"
  by (simp add: float_op_def)

lemma num_op_float:
  assumes "is_num a" "is_num b" "as_int a = None \<or> as_int b = None"
    and "to_float a = Inr f" "to_float b = Inr g"
  shows "num_op fi ff a b = ff f g"
  using assms by (auto simp: num_op_def float_op_eq split: option.splits)

text \<open>An operator with a float operand works on the float values of both operands.\<close>

lemma fp_float_left:
  assumes "fin_val b = Some y"
  shows "fp_add (of_fval f) b = Inr (of_fval (fadd f (Fin y)))"
    and "fp_sub (of_fval f) b = Inr (of_fval (fsub f (Fin y)))"
    and "fp_mul (of_fval f) b = Inr (of_fval (fmul f (Fin y)))"
    and "y \<noteq> 0 \<Longrightarrow> fp_div (of_fval f) b = Inr (of_fval (fquot f (Fin y)))"
  using fin_val_facts [OF assms]
  by (simp_all add: fp_add_def fp_sub_def fp_mul_def fp_div_def num_op_float [where f = f and g = "Fin y"])

lemma fp_float_right:
  assumes "fin_val a = Some x"
  shows "fp_add a (of_fval g) = Inr (of_fval (fadd (Fin x) g))"
    and "fp_mul a (of_fval g) = Inr (of_fval (fmul (Fin x) g))"
  using fin_val_facts [OF assms]
  by (simp_all add: fp_add_def fp_mul_def num_op_float [where f = "Fin x" and g = g])

lemma fp_pow_float:
  assumes "is_num b" "to_float b = Inr g"
  shows "fp_pow pf (of_fval f) b = ebind (float_pow pf f g) (\<lambda>z. Inr (of_fval z))"
  using assms by (simp add: fp_pow_def num_op_float [where f = f and g = g])

text \<open>The quotient of two inputs, integers or floats.\<close>

lemma fp_div_fin:
  assumes "fin_val a = Some x" "fin_val b = Some y" "y \<noteq> 0"
  shows "fp_div a b = Inr (of_fval (fquot (Fin x) (Fin y)))"
proof (cases "as_int a = None \<or> as_int b = None")
  case True
  with fin_val_facts [OF assms(1)] fin_val_facts [OF assms(2)] assms(3) show ?thesis
    by (simp add: fp_div_def num_op_float [where f = "Fin x" and g = "Fin y"])
next
  case False
  then obtain i j where ij: "as_int a = Some i" "as_int b = Some j" by auto
  from fin_val_as_int [OF assms(1) ij(1)] fin_val_as_int [OF assms(2) ij(2)]
  have x: "x = of_int i" and i: "\<bar>i\<bar> \<le> 2 ^ 53" and y: "y = of_int j" by auto
  from assms(3) y have j0: "j \<noteq> 0" by auto
  then have "1 \<le> \<bar>j\<bar>" by simp
  then have j1: "(1::real) \<le> \<bar>of_int j\<bar>"
    by (simp only: of_int_abs [symmetric] of_int_1_le_iff)
  have "\<bar>of_int i / of_int j :: real\<bar> = \<bar>of_int i\<bar> / \<bar>of_int j\<bar>"
    by (rule abs_divide)
  also have "\<dots> \<le> \<bar>of_int i\<bar> / 1"
    using j1 by (intro frac_le) simp_all
  also have "\<dots> = \<bar>of_int i :: real\<bar>" by simp
  also have "\<dots> \<le> of_int (2 ^ 53)"
    using i by (simp only: of_int_abs [symmetric] of_int_le_iff)
  also have "\<dots> \<le> 2 powi 1023" by (simp add: power_int_def)
  finally have "rnd (of_int i / of_int j) = Fin (fl (of_int i / of_int j))"
    by (rule rnd_Fin)
  with ij j0 fin_val_facts(1) [OF assms(1)] fin_val_facts(1) [OF assms(2)] show ?thesis
    by (simp add: fp_div_def num_op_def x y)
qed

text \<open>The product of two inputs: an exact integer or a float, with the float value of the float product.\<close>

lemma fp_mul_fin:
  assumes "fin_val a = Some x" "fin_val b = Some y"
  shows "\<exists>v. fp_mul a b = Inr v \<and> is_num v \<and> to_float v = Inr (fmul (Fin x) (Fin y))"
proof (cases "as_int a = None \<or> as_int b = None")
  case True
  with fin_val_facts [OF assms(1)] fin_val_facts [OF assms(2)] show ?thesis
    by (simp add: fp_mul_def num_op_float [where f = "Fin x" and g = "Fin y"])
next
  case False
  then obtain i j where ij: "as_int a = Some i" "as_int b = Some j" by auto
  from fin_val_as_int [OF assms(1) ij(1)] fin_val_as_int [OF assms(2) ij(2)]
  have x: "x = of_int i" and i: "\<bar>i\<bar> \<le> 2 ^ 53" and y: "y = of_int j" and j: "\<bar>j\<bar> \<le> 2 ^ 53"
    by auto
  have "\<bar>i * j\<bar> \<le> 2 ^ 53 * 2 ^ 53"
    unfolding abs_mult using i j by (intro mult_mono) auto
  then have "\<bar>of_int (i * j) :: real\<bar> \<le> of_int (2 ^ 53 * 2 ^ 53)"
    by (simp only: of_int_abs [symmetric] of_int_le_iff)
  also have "\<dots> \<le> 2 powi 1023" by (simp add: power_int_def)
  finally have "rnd (of_int (i * j)) = Fin (fl (of_int (i * j)))"
    by (rule rnd_Fin)
  with ij fin_val_facts(1) [OF assms(1)] fin_val_facts(1) [OF assms(2)] show ?thesis
    by (simp add: fp_mul_def num_op_def x y int_to_float_def)
qed

lemma fp_gt_fin:
  assumes "fin_val a = Some x"
  shows "fp_gt a (IntV 0) = Inr (0 < x)"
  using fin_val_facts [OF assms] by (simp add: fp_gt_def)

lemma fp_round2_float [simp]: "fp_round2 (of_fval f) = Inr (of_fval (fround2 f))"
  by (simp add: fp_round2_def)

lemma fin_val_const [simp]: "fin_val (IntV 100) = Some 100" "fin_val (IntV 1) = Some 1"
  by simp_all

section \<open>Compound interest\<close>

text \<open>
  C3. For inputs \<open>P\<close>, \<open>R\<close>, \<open>T\<close>, \<open>F\<close> that are finite numbers (an absent one is 0, an
  absent \<open>F\<close> is 12), with \<open>F\<close> other than 0 and where Python's power returns
  (\<open>pw\<close> is \<^verbatim>\<open>(1 + R/100/F) ** (F*T)\<close>), \<open>compound_interest\<close> returns
  \<open>final_amount = round(P * pw, 2)\<close>, \<open>interest_earned = round(P * pw - P, 2)\<close>, the
  principal as it was given, and \<open>total_return_percentage = round((P * pw - P) / P * 100, 2)\<close>
  for \<open>P > 0\<close>, the integer 0 (and no division) otherwise. Every operation is the
  binary64 one, in the order of the source, and \<^verbatim>\<open>round\<close> is \<open>fround2\<close>: to the nearest
  hundredth, ties to even.
\<close>

theorem compound_interest_formula:
  assumes "fin_val (dget ins ''principal'' (IntV 0)) = Some P"
    and "fin_val (dget ins ''rate'' (IntV 0)) = Some R"
    and "fin_val (dget ins ''time'' (IntV 0)) = Some T"
    and "fin_val (dget ins ''frequency'' (IntV 12)) = Some F"
    and "F \<noteq> 0"
    and "float_pow pf (fadd (Fin 1) (fquot (fquot (Fin R) (Fin 100)) (Fin F)))
           (fmul (Fin F) (Fin T)) = Inr pw"
  shows "simulate pf ''compound_interest'' ins =
           Inr [(''final_amount'', of_fval (fround2 (fmul (Fin P) pw))),
                (''interest_earned'', of_fval (fround2 (fsub (fmul (Fin P) pw) (Fin P)))),
                (''principal'', dget ins ''principal'' (IntV 0)),
                (''total_return_percentage'',
                   if 0 < P
                   then of_fval (fround2 (fmul (fquot (fsub (fmul (Fin P) pw) (Fin P)) (Fin P))
                                               (Fin 100)))
                   else IntV 0)]"
proof -
  obtain expo where expo: "fp_mul (dget ins ''frequency'' (IntV 12)) (dget ins ''time'' (IntV 0)) = Inr expo"
    "is_num expo" "to_float expo = Inr (fmul (Fin F) (Fin T))"
    using fp_mul_fin [OF assms(4) assms(3)] by blast
  have rate: "fp_div (dget ins ''rate'' (IntV 0)) (IntV 100) = Inr (of_fval (fquot (Fin R) (Fin 100)))"
    by (rule fp_div_fin [OF assms(2)]) simp_all
  have q: "fp_div (of_fval (fquot (Fin R) (Fin 100))) (dget ins ''frequency'' (IntV 12))
             = Inr (of_fval (fquot (fquot (Fin R) (Fin 100)) (Fin F)))"
    by (rule fp_float_left(4) [OF assms(4) assms(5)])
  have base: "fp_add (IntV 1) (of_fval (fquot (fquot (Fin R) (Fin 100)) (Fin F)))
             = Inr (of_fval (fadd (Fin 1) (fquot (fquot (Fin R) (Fin 100)) (Fin F))))"
    by (rule fp_float_right(1)) simp
  have pw: "fp_pow pf (of_fval (fadd (Fin 1) (fquot (fquot (Fin R) (Fin 100)) (Fin F)))) expo
             = Inr (of_fval pw)"
    by (simp only: fp_pow_float [OF expo(2,3)] assms(6) ebind_Inr)
  have amount: "fp_mul (dget ins ''principal'' (IntV 0)) (of_fval pw)
             = Inr (of_fval (fmul (Fin P) pw))"
    by (rule fp_float_right(2) [OF assms(1)])
  have interest: "fp_sub (of_fval (fmul (Fin P) pw)) (dget ins ''principal'' (IntV 0))
             = Inr (of_fval (fsub (fmul (Fin P) pw) (Fin P)))"
    by (rule fp_float_left(2) [OF assms(1)])
  have pos: "fp_gt (dget ins ''principal'' (IntV 0)) (IntV 0) = Inr (0 < P)"
    by (rule fp_gt_fin [OF assms(1)])
  have ratio: "0 < P \<Longrightarrow>
        fp_div (of_fval (fsub (fmul (Fin P) pw) (Fin P))) (dget ins ''principal'' (IntV 0))
          = Inr (of_fval (fquot (fsub (fmul (Fin P) pw) (Fin P)) (Fin P)))"
    by (rule fp_float_left(4) [OF assms(1)]) simp
  have pct: "fp_mul (of_fval (fquot (fsub (fmul (Fin P) pw) (Fin P)) (Fin P))) (IntV 100)
          = Inr (of_fval (fmul (fquot (fsub (fmul (Fin P) pw) (Fin P)) (Fin P)) (Fin 100)))"
    by (rule fp_float_left(3)) simp
  have "compound_interest pf ins =
           Inr [(''final_amount'', of_fval (fround2 (fmul (Fin P) pw))),
                (''interest_earned'', of_fval (fround2 (fsub (fmul (Fin P) pw) (Fin P)))),
                (''principal'', dget ins ''principal'' (IntV 0)),
                (''total_return_percentage'',
                   if 0 < P
                   then of_fval (fround2 (fmul (fquot (fsub (fmul (Fin P) pw) (Fin P)) (Fin P))
                                               (Fin 100)))
                   else IntV 0)]"
  proof (cases "0 < P")
    case True
    show ?thesis
      unfolding compound_interest_def Let_def
      by (simp only: rate q base expo(1) pw amount interest pos ratio [OF True] pct
            fp_round2_float ebind_Inr True if_True)
  next
    case False
    show ?thesis
      unfolding compound_interest_def Let_def
      by (simp only: rate q base expo(1) pw amount interest pos
            fp_round2_float ebind_Inr False if_False)
  qed
  then show ?thesis by (simp add: simulate_def)
qed

theorem compound_interest_formula_witness:
  "fin_val (dget [(''principal'', IntV 25), (''rate'', Num (3 / 2)), (''time'', IntV 1), (''frequency'', IntV 1)] ''principal'' (IntV 0)) = Some 25 \<and>
   fin_val (dget [(''principal'', IntV 25), (''rate'', Num (3 / 2)), (''time'', IntV 1), (''frequency'', IntV 1)] ''rate'' (IntV 0)) = Some (3 / 2) \<and>
   fin_val (dget [(''principal'', IntV 25), (''rate'', Num (3 / 2)), (''time'', IntV 1), (''frequency'', IntV 1)] ''time'' (IntV 0)) = Some 1 \<and>
   fin_val (dget [(''principal'', IntV 25), (''rate'', Num (3 / 2)), (''time'', IntV 1), (''frequency'', IntV 1)] ''frequency'' (IntV 12)) = Some 1 \<and>
   (1::real) \<noteq> 0 \<and>
   float_pow reference_platform (fadd (Fin 1) (fquot (fquot (Fin (3 / 2)) (Fin 100)) (Fin 1)))
     (fmul (Fin 1) (Fin 1)) = Inr (Fin (4571153621781053 / 4503599627370496)) \<and>
   simulate reference_platform ''compound_interest'' [(''principal'', IntV 25), (''rate'', Num (3 / 2)), (''time'', IntV 1), (''frequency'', IntV 1)] =
     Inr [(''final_amount'', Num (fl (2537 / 100))),
          (''interest_earned'', Num (fl (37 / 100))),
          (''principal'', IntV 25),
          (''total_return_percentage'', Num (fl (150 / 100)))]"
proof -
  have r: "rnd (3 / 200) = Fin (1080863910568919 / 72057594037927936)"
    by (rule rnd_cert [where e = "-7" and q = "1 / 576460752303423488" and n = 8646911284551352])
       (simp_all add: power_int_def power_divide)
  have r': "rnd (1080863910568919 / 72057594037927936) = Fin (1080863910568919 / 72057594037927936)"
    by (rule rnd_cert [where e = "-7" and q = "1 / 576460752303423488" and n = 8646911284551352])
       (simp_all add: power_int_def power_divide)
  have b: "rnd (73138457948496855 / 72057594037927936) = Fin (4571153621781053 / 4503599627370496)"
    by (rule rnd_cert [where e = "0" and q = "1 / 4503599627370496" and n = 4571153621781053])
       (simp_all add: power_int_def power_divide)
  have one: "rnd (1) = Fin (1)"
    by (rule rnd_cert [where e = "0" and q = "1 / 4503599627370496" and n = 4503599627370496])
       (simp_all add: power_int_def power_divide)
  have b': "rnd (4571153621781053 / 4503599627370496) = Fin (4571153621781053 / 4503599627370496)"
    by (rule rnd_cert [where e = "0" and q = "1 / 4503599627370496" and n = 4571153621781053])
       (simp_all add: power_int_def power_divide)
  have c: "rnd (114278840544526325 / 4503599627370496) = Fin (7142427534032895 / 281474976710656)"
    by (rule rnd_cert [where e = "4" and q = "1 / 281474976710656" and n = 7142427534032895])
       (simp_all add: power_int_def power_divide)
  have i: "rnd (105553116266495 / 281474976710656) = Fin (105553116266495 / 281474976710656)"
    by (rule rnd_cert [where e = "-2" and q = "1 / 18014398509481984" and n = 6755399441055680])
       (simp_all add: power_int_def power_divide)
  have t1: "rnd (21110623253299 / 1407374883553280) = Fin (4323455642275635 / 288230376151711744)"
    by (rule rnd_cert [where e = "-7" and q = "1 / 576460752303423488" and n = 8646911284551270])
       (simp_all add: power_int_def power_divide)
  have t2: "rnd (108086391056890875 / 72057594037927936) = Fin (105553116266495 / 70368744177664)"
    by (rule rnd_cert [where e = "0" and q = "1 / 4503599627370496" and n = 6755399441055680])
       (simp_all add: power_int_def power_divide)
  have rc: "round_half_even (178560688350822375 / 70368744177664) = 2537"
    by (rule round_half_even_near) simp
  have ri: "round_half_even (2638827906662375 / 70368744177664) = 37"
    by (rule round_half_even_near) simp
  have rt: "round_half_even (2638827906662375 / 17592186044416) = 150"
    by (rule round_half_even_near) simp
  have h1: "fin_val (dget [(''principal'', IntV 25), (''rate'', Num (3 / 2)), (''time'', IntV 1), (''frequency'', IntV 1)] ''principal'' (IntV 0)) = Some 25"
    and h2: "fin_val (dget [(''principal'', IntV 25), (''rate'', Num (3 / 2)), (''time'', IntV 1), (''frequency'', IntV 1)] ''rate'' (IntV 0)) = Some (3 / 2)"
    and h3: "fin_val (dget [(''principal'', IntV 25), (''rate'', Num (3 / 2)), (''time'', IntV 1), (''frequency'', IntV 1)] ''time'' (IntV 0)) = Some 1"
    and h4: "fin_val (dget [(''principal'', IntV 25), (''rate'', Num (3 / 2)), (''time'', IntV 1), (''frequency'', IntV 1)] ''frequency'' (IntV 12)) = Some 1"
    by (simp_all add: dget_def)
  have h5: "(1::real) \<noteq> 0" by simp
  have h6: "float_pow reference_platform
              (fadd (Fin 1) (fquot (fquot (Fin (3 / 2)) (Fin 100)) (Fin 1)))
              (fmul (Fin 1) (Fin 1)) = Inr (Fin (4571153621781053 / 4503599627370496))"
    by (simp add: r r' b one b' float_pow_def reference_platform_def pow_cr_def)
  from compound_interest_formula [OF h1 h2 h3 h4 h5 h6]
  have "simulate reference_platform ''compound_interest'' [(''principal'', IntV 25), (''rate'', Num (3 / 2)), (''time'', IntV 1), (''frequency'', IntV 1)] =
     Inr [(''final_amount'', Num (fl (2537 / 100))),
          (''interest_earned'', Num (fl (37 / 100))),
          (''principal'', IntV 25),
          (''total_return_percentage'', Num (fl (150 / 100)))]"
    by (simp add: c i t1 t2 rc ri rt fsub_def dget_def)
  with h1 h2 h3 h4 h5 h6 show ?thesis by blast
qed

section \<open>Compound against simple interest\<close>

text \<open>Small integers and a half are floats: the operations on them are exact.\<close>

lemma rnd_numeral:
  "numeral k \<le> (2::int) ^ 53 \<Longrightarrow> rnd (numeral k) = Fin (numeral k)"
  using rnd_of_int [of "numeral k"] by simp

lemma rnd_one: "rnd 1 = Fin 1"
  using rnd_of_int [of 1] by simp

lemma rnd_half: "rnd (1 / 2) = Fin (1 / 2)"
  by (rule rnd_cert [where e = "- 1" and q = "1 / 9007199254740992" and n = 4503599627370496])
     (simp_all add: power_int_def power_divide)

lemma fl_numeral:
  "numeral k \<le> (2::int) ^ 53 \<Longrightarrow> fl (numeral k) = numeral k"
  using fl_of_int [of "numeral k"] by simp

lemma round_half_even_numeral: "round_half_even (numeral k) = numeral k"
  using round_half_even_of_int [of "numeral k"] by simp

lemma four_powr_half: "(4::real) powr (1 / 2) = 2"
proof -
  have "(4::real) powr (1 / 2) = sqrt 4" by (simp add: powr_half_sqrt)
  also have "\<dots> = 2" using real_sqrt_abs [of 2] by simp
  finally show ?thesis .
qed

lemmas fp_ops = fp_add_def fp_sub_def fp_mul_def fp_div_def fp_pow_def fp_gt_def fp_round2_def
  num_op_def float_op_def int_to_float_def fsub_def

text \<open>
  C4, as stated, fails. The claim: for principal > 0, rate \<ge> 0, time > 0 and
  frequency \<ge> 1, on the same inputs the \<open>final_amount\<close> of \<open>compound_interest\<close> is at least
  that of \<open>simple_interest\<close>. With 100 at 300 percent for half a year, compounded once a
  year, the compound amount is \<open>100 * 4 ** 0.5 = 200\<close> and the simple amount is
  \<open>100 + 100 * 3 * 0.5 = 250\<close>: within a compounding period the compound formula grows
  slower than the linear one.
\<close>

theorem compound_below_simple_counterexample:
  "simulate reference_platform ''compound_interest''
     [(''principal'', IntV 100), (''rate'', IntV 300), (''time'', Num (1 / 2)),
      (''frequency'', IntV 1)]
   = Inr [(''final_amount'', Num 200), (''interest_earned'', Num 100),
          (''principal'', IntV 100), (''total_return_percentage'', Num 100)] \<and>
   simulate reference_platform ''simple_interest''
     [(''principal'', IntV 100), (''rate'', IntV 300), (''time'', Num (1 / 2)),
      (''frequency'', IntV 1)]
   = Inr [(''final_amount'', Num 250), (''interest_earned'', Num 150),
          (''principal'', IntV 100)] \<and>
   \<not> ((250::real) \<le> 200)"
  by (simp add: simulate_def compound_interest_def simple_interest_def Let_def fp_ops
        float_pow_def reference_platform_def pow_cr_def dget_def
        rnd_numeral rnd_one rnd_half fl_numeral round_half_even_numeral four_powr_half)

section \<open>The document store lemmas\<close>

text \<open>
  Assignment to a key, and \<^verbatim>\<open>$set\<close>, seen through \<open>map_of\<close>.
\<close>

lemma map_of_dict_set: "map_of (dict_set k v d) = (map_of d)(k \<mapsto> v)"
  by (induction d) (auto simp: fun_eq_iff)

lemma map_of_set_fields: "map_of (set_fields fs d) = map_of d ++ map_of (rev fs)"
  unfolding set_fields_def
proof (induction fs arbitrary: d)
  case Nil
  then show ?case by simp
next
  case (Cons p fs)
  obtain k v where p: "p = (k, v)" by (cases p)
  show ?case
    by (simp add: p Cons.IH map_of_dict_set fun_eq_iff map_add_def split: option.splits)
qed

lemma map_of_rev_distinct: "distinct (map fst xs) \<Longrightarrow> map_of (rev xs) = map_of xs"
  by (subst map_of_inject_set) (simp_all add: rev_map [symmetric])

lemma map_of_set_fields_distinct:
  "distinct (map fst fs) \<Longrightarrow> map_of (set_fields fs d) = map_of d ++ map_of fs"
  by (simp add: map_of_set_fields map_of_rev_distinct)

lemma matches_find_one: "find_one k v coll = Some d \<Longrightarrow> matches k v d"
  unfolding find_one_def by (induction coll) (auto split: if_splits)

lemma find_one_append_new:
  "find_one k v coll = None \<Longrightarrow> matches k v d \<Longrightarrow> find_one k v (coll @ [d]) = Some d"
  unfolding find_one_def by (induction coll) (simp_all split: if_splits)

text \<open>
  An upsert whose update succeeds on the record it addresses (the first match, or the new
  record made of the query's field) and keeps the match: the record found afterwards is the
  updated one, and the collection grows only when there was no match.
\<close>

lemma update_one_result:
  assumes "upd (case find_one k v coll of None \<Rightarrow> [(k, v)] | Some d \<Rightarrow> d) = Inr d'"
    and "matches k v d'"
  shows "\<exists>coll'. update_one k v upd coll = Inr coll' \<and> find_one k v coll' = Some d' \<and>
           length coll' = (if find_one k v coll = None then Suc (length coll) else length coll)"
  using assms
proof (induction coll)
  case Nil
  then show ?case by (simp add: find_one_def)
next
  case (Cons d ds)
  show ?case
  proof (cases "matches k v d")
    case True
    with Cons.prems show ?thesis by (simp add: find_one_def)
  next
    case False
    with Cons.prems have "upd (case find_one k v ds of None \<Rightarrow> [(k, v)] | Some d \<Rightarrow> d) = Inr d'"
      by (simp add: find_one_def)
    from Cons.IH [OF this Cons.prems(2)] False show ?thesis
      by (auto simp: find_one_def)
  qed
qed

text \<open>
  An update that leaves a field alone leaves it alone in the record found afterwards.
\<close>

lemma update_one_other_field:
  assumes "update_one k v upd coll = Inr coll'"
    and "\<And>d d'. upd d = Inr d' \<Longrightarrow> map_of d' f = map_of d f"
    and "\<And>d d'. upd d = Inr d' \<Longrightarrow> map_of d' k = map_of d k"
    and "f \<noteq> k"
  shows "(case find_one k v coll' of None \<Rightarrow> None | Some d \<Rightarrow> map_of d f) =
         (case find_one k v coll of None \<Rightarrow> None | Some d \<Rightarrow> map_of d f)"
  using assms(1)
proof (induction coll arbitrary: coll')
  case Nil
  then obtain d' where d': "upd [(k, v)] = Inr d'" "coll' = [d']"
    by (cases "upd [(k, v)]") auto
  from assms(2)[OF d'(1)] assms(3)[OF d'(1)] assms(4) d'(2) show ?case
    by (simp add: find_one_def matches_def)
next
  case (Cons d ds)
  show ?case
  proof (cases "matches k v d")
    case True
    with Cons.prems obtain d' where d': "upd d = Inr d'" "coll' = d' # ds"
      by (cases "upd d") auto
    from assms(3)[OF d'(1)] True have "matches k v d'" by (simp add: matches_def)
    with True d' assms(2)[OF d'(1)] show ?thesis by (simp add: find_one_def)
  next
    case False
    with Cons.prems obtain ds' where ds': "update_one k v upd ds = Inr ds'" "coll' = d # ds'"
      by (cases "update_one k v upd ds") auto
    from Cons.IH[OF ds'(1)] False ds'(2) show ?thesis by (simp add: find_one_def)
  qed
qed

lemma progress_field_alt:
  "progress_field f s =
     (case find_one ''user_id'' default_user (progress s) of None \<Rightarrow> None | Some d \<Rightarrow> map_of d f)"
  by (simp add: progress_field_def user_progress_def)

lemma progress_field_cong: "progress s' = progress s \<Longrightarrow> progress_field f s' = progress_field f s"
  by (simp add: progress_field_alt)

lemma target_user_id:
  "map_of (case find_one ''user_id'' default_user coll of
             None \<Rightarrow> [(''user_id'', default_user)] | Some d \<Rightarrow> d) ''user_id'' = Some default_user"
proof (cases "find_one ''user_id'' default_user coll")
  case None
  then show ?thesis by simp
next
  case (Some d)
  from matches_find_one [OF this] Some show ?thesis by (simp add: matches_def)
qed

lemma target_field:
  "f \<noteq> ''user_id'' \<Longrightarrow>
   map_of (case find_one ''user_id'' default_user (progress s) of
             None \<Rightarrow> [(''user_id'', default_user)] | Some d \<Rightarrow> d) f = progress_field f s"
  by (simp add: progress_field_alt split: option.splits)

lemma add_to_set_other:
  "add_to_set k v d = Inr d' \<Longrightarrow> f \<noteq> k \<Longrightarrow> map_of d' f = map_of d f"
  by (auto simp: add_to_set_def map_of_dict_set split: option.splits pyval.splits if_splits)

lemma set_path_other:
  "set_path (k # ks) v d = Inr d' \<Longrightarrow> f \<noteq> k \<Longrightarrow> map_of d' f = map_of d f"
  by (cases ks)
     (auto simp: map_of_dict_set ebind_def split: if_splits option.splits pyval.splits sum.splits)

lemma set_last_active_other:
  "f \<noteq> ''last_active'' \<Longrightarrow> map_of (set_fields [(''last_active'', x)] d) f = map_of d f"
  by (simp add: map_of_set_fields)

section \<open>What each handler does to the progress record\<close>

lemma calculate_simulation_progress:
  "progress (snd (calculate_simulation pf sim t s)) = progress s"
  by (simp add: calculate_simulation_def Let_def split: sum.splits)

lemma generate_lesson_progress:
  "progress (snd (generate_lesson e r t s)) = progress s"
  by (simp add: generate_lesson_def split: sum.splits)

lemma get_progress_field:
  "progress_field f (snd (get_progress t s)) =
     (if user_progress s = None
      then map_of [(''user_id'', default_user),
                   (''completed_lessons'', PList []),
                   (''quiz_scores'', Dict []),
                   (''simulations_completed'', PList []),
                   (''last_active'', DateTime t)] f
      else progress_field f s)"
proof (cases "find_one ''user_id'' default_user (progress s)")
  case None
  let ?p = "[(''user_id'', default_user),
                   (''completed_lessons'', PList []),
                   (''quiz_scores'', Dict []),
                   (''simulations_completed'', PList []),
                   (''last_active'', DateTime t)]"
  have "matches ''user_id'' default_user ?p" by (simp add: matches_def)
  from find_one_append_new [OF None this]
  have found: "find_one ''user_id'' default_user (progress s @ [?p]) = Some ?p" .
  have pr: "progress (snd (get_progress t s)) = progress s @ [?p]"
    using None by (simp add: get_progress_def Let_def)
  have "progress_field f (snd (get_progress t s)) = map_of ?p f"
    by (simp only: progress_field_def user_progress_def pr found option.case)
  with None show ?thesis
    by (simp only: user_progress_def refl if_True)
next
  case (Some p)
  then show ?thesis
    by (simp add: get_progress_def progress_field_def user_progress_def)
qed

lemma complete_lesson_frame:
  assumes "f \<noteq> ''completed_lessons''" "f \<noteq> ''last_active''" "f \<noteq> ''user_id''"
  shows "progress_field f (snd (complete_lesson L t s)) = progress_field f s"
proof (cases "update_one ''user_id'' default_user
             (\<lambda>d. ebind (add_to_set ''completed_lessons'' (Str L) d)
                    (\<lambda>d'. Inr (set_fields [(''last_active'', DateTime t)] d')))
             (progress s)")
  case (Inl e)
  then show ?thesis by (simp add: complete_lesson_def)
next
  case (Inr ps)
  have "(case find_one ''user_id'' default_user ps of None \<Rightarrow> None | Some d \<Rightarrow> map_of d f) =
        (case find_one ''user_id'' default_user (progress s) of None \<Rightarrow> None | Some d \<Rightarrow> map_of d f)"
  proof (rule update_one_other_field [OF Inr])
    fix d d'
    assume "ebind (add_to_set ''completed_lessons'' (Str L) d)
              (\<lambda>d'. Inr (set_fields [(''last_active'', DateTime t)] d')) = Inr d'"
    then obtain d1 where d1: "add_to_set ''completed_lessons'' (Str L) d = Inr d1"
      and d': "d' = set_fields [(''last_active'', DateTime t)] d1"
      by (cases "add_to_set ''completed_lessons'' (Str L) d") auto
    show "map_of d' f = map_of d f"
      using add_to_set_other [OF d1, of f] assms by (simp add: d' set_last_active_other)
    show "map_of d' ''user_id'' = map_of d ''user_id''"
      using add_to_set_other [OF d1, of "''user_id''"] by (simp add: d' set_last_active_other)
  qed (use assms in simp)
  with Inr show ?thesis by (simp add: complete_lesson_def progress_field_alt)
qed

lemma submit_quiz_frame:
  assumes "f \<noteq> ''quiz_scores''" "f \<noteq> ''last_active''" "f \<noteq> ''user_id''"
  shows "progress_field f (snd (submit_quiz q t s)) = progress_field f s"
proof (cases "update_one ''user_id'' default_user
             (\<lambda>d. ebind (set_path (''quiz_scores'' # split_dots (qs_lesson_id q))
                             (Num (score q)) d)
                    (\<lambda>d'. Inr (set_fields [(''last_active'', DateTime t)] d')))
             (progress s)")
  case (Inl e)
  then show ?thesis by (simp add: submit_quiz_def)
next
  case (Inr ps)
  have "(case find_one ''user_id'' default_user ps of None \<Rightarrow> None | Some d \<Rightarrow> map_of d f) =
        (case find_one ''user_id'' default_user (progress s) of None \<Rightarrow> None | Some d \<Rightarrow> map_of d f)"
  proof (rule update_one_other_field [OF Inr])
    fix d d'
    assume "ebind (set_path (''quiz_scores'' # split_dots (qs_lesson_id q)) (Num (score q)) d)
              (\<lambda>d'. Inr (set_fields [(''last_active'', DateTime t)] d')) = Inr d'"
    then obtain d1 where d1: "set_path (''quiz_scores'' # split_dots (qs_lesson_id q)) (Num (score q)) d = Inr d1"
      and d': "d' = set_fields [(''last_active'', DateTime t)] d1"
      by (cases "set_path (''quiz_scores'' # split_dots (qs_lesson_id q)) (Num (score q)) d") auto
    show "map_of d' f = map_of d f"
      using set_path_other [OF d1, of f] assms by (simp add: d' set_last_active_other)
    show "map_of d' ''user_id'' = map_of d ''user_id''"
      using set_path_other [OF d1, of "''user_id''"] by (simp add: d' set_last_active_other)
  qed (use assms in simp)
  with Inr show ?thesis by (simp add: submit_quiz_def progress_field_alt)
qed

text \<open>
  \<open>complete_lesson\<close> on a record whose \<^verbatim>\<open>completed_lessons\<close> is absent or an
  array: it succeeds, adds the id unless present and sets \<^verbatim>\<open>last_active\<close>.
\<close>

lemma complete_lesson_ok:
  assumes "completed_is_array s"
  shows "\<exists>s'. complete_lesson L t s =
                 (Inr [(''success'', Bool True), (''lesson_id'', Str L)], s') \<and>
              lessons s' = lessons s \<and> simulations s' = simulations s \<and>
              progress_field ''completed_lessons'' s' =
                Some (PList (if Str L \<in> set (completed_list s) then completed_list s
                             else completed_list s @ [Str L])) \<and>
              progress_field ''last_active'' s' = Some (DateTime t)"
proof -
  let ?d0 = "case find_one ''user_id'' default_user (progress s) of
               None \<Rightarrow> [(''user_id'', default_user)] | Some d \<Rightarrow> d"
  let ?new = "if Str L \<in> set (completed_list s) then completed_list s
              else completed_list s @ [Str L]"
  let ?upd = "\<lambda>d. ebind (add_to_set ''completed_lessons'' (Str L) d)
                    (\<lambda>d'. Inr (set_fields [(''last_active'', DateTime t)] d'))"
  have f0: "map_of ?d0 ''completed_lessons'' = progress_field ''completed_lessons'' s"
    by (rule target_field) simp
  obtain d1 where d1: "add_to_set ''completed_lessons'' (Str L) ?d0 = Inr d1"
    and c1: "map_of d1 ''completed_lessons'' = Some (PList ?new)"
    and u1: "map_of d1 ''user_id'' = Some default_user"
  proof (cases "progress_field ''completed_lessons'' s")
    case None
    with f0 have "add_to_set ''completed_lessons'' (Str L) ?d0 =
                    Inr (dict_set ''completed_lessons'' (PList [Str L]) ?d0)"
      by (simp add: add_to_set_def)
    moreover have "completed_list s = []" using None by (simp add: completed_list_def)
    ultimately show ?thesis
      using that [of "dict_set ''completed_lessons'' (PList [Str L]) ?d0"] target_user_id [of "progress s"]
      by (simp add: map_of_dict_set)
  next
    case (Some v)
    with assms obtain xs where xs: "v = PList xs"
      by (cases v) (simp_all add: completed_is_array_def)
    have cl: "completed_list s = xs" using Some xs by (simp add: completed_list_def)
    show ?thesis
    proof (cases "Str L \<in> set xs")
      case True
      with f0 Some xs have "add_to_set ''completed_lessons'' (Str L) ?d0 = Inr ?d0"
        by (simp add: add_to_set_def)
      then show ?thesis
        using that [of ?d0] target_user_id [of "progress s"] f0 Some xs cl True by simp
    next
      case False
      with f0 Some xs have "add_to_set ''completed_lessons'' (Str L) ?d0 =
                    Inr (dict_set ''completed_lessons'' (PList (xs @ [Str L])) ?d0)"
        by (simp add: add_to_set_def)
      then show ?thesis
        using that [of "dict_set ''completed_lessons'' (PList (xs @ [Str L])) ?d0"]
          target_user_id [of "progress s"] cl False
        by (simp add: map_of_dict_set)
    qed
  qed
  let ?d' = "set_fields [(''last_active'', DateTime t)] d1"
  have upd: "?upd ?d0 = Inr ?d'" using d1 by simp
  have m: "matches ''user_id'' default_user ?d'"
    using u1 by (simp add: matches_def map_of_set_fields)
  from update_one_result [of ?upd, OF upd m]
  obtain ps where ps: "update_one ''user_id'' default_user ?upd (progress s) = Inr ps"
    and found: "find_one ''user_id'' default_user ps = Some ?d'"
    by blast
  have "progress_field ''completed_lessons'' (s\<lparr>progress := ps\<rparr>) = Some (PList ?new)"
    using found c1 by (simp add: progress_field_alt map_of_set_fields)
  moreover have "progress_field ''last_active'' (s\<lparr>progress := ps\<rparr>) = Some (DateTime t)"
    using found by (simp add: progress_field_alt map_of_set_fields)
  moreover have "complete_lesson L t s =
       (Inr [(''success'', Bool True), (''lesson_id'', Str L)], s\<lparr>progress := ps\<rparr>)"
    using ps by (simp add: complete_lesson_def)
  ultimately show ?thesis by simp
qed

lemma count_list_distinct: "distinct xs \<Longrightarrow> x \<in> set xs \<Longrightarrow> count_list xs x = 1"
  by (induction xs) (auto simp: count_notin)

lemma completed_wf_iff:
  "completed_wf s \<longleftrightarrow> completed_is_array s \<and> distinct (completed_list s)"
  by (auto simp: completed_wf_def completed_is_array_def completed_list_def
           split: option.splits pyval.splits)

lemma complete_lesson_completed_wf:
  assumes "completed_wf s"
  shows "completed_wf (snd (complete_lesson L t s))"
proof -
  from assms have a: "completed_is_array s" and d: "distinct (completed_list s)"
    by (simp_all add: completed_wf_iff)
  from complete_lesson_ok [OF a, of L t] d show ?thesis
    by (auto simp: completed_wf_def)
qed

text \<open>
  Every state the handlers build from the empty store keeps \<^verbatim>\<open>completed_lessons\<close>
  an array without duplicates, and \<^verbatim>\<open>simulations_completed\<close> absent or empty.
\<close>

lemma reachable_completed_wf: "reachable s \<Longrightarrow> completed_wf s"
proof (induction rule: reachable.induct)
  case reach_empty
  show ?case
    by (simp add: completed_wf_def progress_field_alt empty_db_def find_one_def)
next
  case (reach_get_progress s now)
  then show ?case
    by (simp add: completed_wf_def get_progress_field)
next
  case (reach_complete_lesson s lesson_id now)
  then show ?case by (simp add: complete_lesson_completed_wf)
next
  case (reach_submit_quiz s submission now)
  then show ?case
    by (simp add: completed_wf_def submit_quiz_frame)
next
  case (reach_calculate_simulation s simulation now)
  then show ?case
    by (simp add: completed_wf_def progress_field_cong [OF calculate_simulation_progress])
next
  case (reach_generate_lesson s e request now)
  then show ?case
    by (simp add: completed_wf_def progress_field_cong [OF generate_lesson_progress])
qed

lemma reachable_simulations_completed:
  "reachable s \<Longrightarrow>
   progress_field ''simulations_completed'' s = None \<or>
   progress_field ''simulations_completed'' s = Some (PList [])"
proof (induction rule: reachable.induct)
  case reach_empty
  show ?case
    by (simp add: progress_field_alt empty_db_def find_one_def)
next
  case (reach_get_progress s now)
  then show ?case
    by (simp add: get_progress_field)
next
  case (reach_complete_lesson s lesson_id now)
  then show ?case by (simp add: complete_lesson_frame)
next
  case (reach_submit_quiz s submission now)
  then show ?case
    by (simp add: submit_quiz_frame)
next
  case (reach_calculate_simulation s simulation now)
  then show ?case
    by (simp add: progress_field_cong [OF calculate_simulation_progress])
next
  case (reach_generate_lesson s e request now)
  then show ?case
    by (simp add: progress_field_cong [OF generate_lesson_progress])
qed

section \<open>Completing a lesson\<close>

text \<open>
  C6. \<open>complete_lesson\<close> is idempotent on the completed set: from a progress record
  whose completed lessons hold no duplicate (every record the handlers build), two calls
  with the same lesson id both succeed, the id is in \<^verbatim>\<open>completed_lessons\<close> exactly once,
  the second call leaves the array as the first made it, and each call sets
  \<^verbatim>\<open>last_active\<close> to its own time.
\<close>

theorem complete_lesson_twice_once:
  assumes "completed_wf s"
  shows "let s1 = snd (complete_lesson L t1 s);
             s2 = snd (complete_lesson L t2 s1)
         in fst (complete_lesson L t1 s) = Inr [(''success'', Bool True), (''lesson_id'', Str L)] \<and>
            fst (complete_lesson L t2 s1) = Inr [(''success'', Bool True), (''lesson_id'', Str L)] \<and>
            progress_field ''completed_lessons'' s2 = Some (PList (completed_list s2)) \<and>
            count_list (completed_list s2) (Str L) = 1 \<and>
            completed_list s2 = completed_list s1 \<and>
            progress_field ''last_active'' s1 = Some (DateTime t1) \<and>
            progress_field ''last_active'' s2 = Some (DateTime t2)"
proof -
  define s1 where "s1 = snd (complete_lesson L t1 s)"
  define s2 where "s2 = snd (complete_lesson L t2 s1)"
  let ?ack = "Inr [(''success'', Bool True), (''lesson_id'', Str L)] :: exn + doc"
  let ?new = "if Str L \<in> set (completed_list s) then completed_list s
              else completed_list s @ [Str L]"
  from assms have a: "completed_is_array s" and d: "distinct (completed_list s)"
    by (simp_all add: completed_wf_iff)
  from complete_lesson_ok [OF a, of L t1]
  have r1: "fst (complete_lesson L t1 s) = ?ack"
    and c1: "progress_field ''completed_lessons'' s1 = Some (PList ?new)"
    and l1: "progress_field ''last_active'' s1 = Some (DateTime t1)"
    by (auto simp: s1_def)
  have cl1: "completed_list s1 = ?new" using c1 by (simp add: completed_list_def)
  have a1: "completed_is_array s1" using c1 by (simp add: completed_is_array_def)
  have in1: "Str L \<in> set (completed_list s1)" by (simp add: cl1)
  have d1: "distinct (completed_list s1)" using d by (simp add: cl1)
  from complete_lesson_ok [OF a1, of L t2] in1
  have r2: "fst (complete_lesson L t2 s1) = ?ack"
    and c2: "progress_field ''completed_lessons'' s2 = Some (PList (completed_list s1))"
    and l2: "progress_field ''last_active'' s2 = Some (DateTime t2)"
    by (auto simp: s2_def)
  have cl2: "completed_list s2 = completed_list s1" using c2 by (simp add: completed_list_def)
  have "count_list (completed_list s1) (Str L) = 1"
    using d1 in1 by (rule count_list_distinct)
  with r1 r2 c2 l1 l2 cl2 show ?thesis
    by (simp add: Let_def s1_def [symmetric] s2_def [symmetric])
qed

theorem complete_lesson_twice_once_witness:
  "completed_wf
     \<lparr>lessons = [],
        progress = [[(''user_id'', Str ''default_user''),
                     (''completed_lessons'', PList [Str ''intro'']),
                     (''last_active'', DateTime 1)]],
        simulations = []\<rparr> \<and>
   (let s1 = snd (complete_lesson ''budgeting'' 2
                \<lparr>lessons = [],
                   progress = [[(''user_id'', Str ''default_user''),
                                (''completed_lessons'', PList [Str ''intro'']),
                                (''last_active'', DateTime 1)]],
                   simulations = []\<rparr>);
        s2 = snd (complete_lesson ''budgeting'' 3 s1)
    in fst (complete_lesson ''budgeting'' 2
                \<lparr>lessons = [],
                   progress = [[(''user_id'', Str ''default_user''),
                                (''completed_lessons'', PList [Str ''intro'']),
                                (''last_active'', DateTime 1)]],
                   simulations = []\<rparr>)
         = Inr [(''success'', Bool True), (''lesson_id'', Str ''budgeting'')] \<and>
       fst (complete_lesson ''budgeting'' 3 s1)
         = Inr [(''success'', Bool True), (''lesson_id'', Str ''budgeting'')] \<and>
       progress_field ''completed_lessons'' s2 = Some (PList (completed_list s2)) \<and>
       count_list (completed_list s2) (Str ''budgeting'') = 1 \<and>
       completed_list s2 = completed_list s1 \<and>
       progress_field ''last_active'' s1 = Some (DateTime 2) \<and>
       progress_field ''last_active'' s2 = Some (DateTime 3)) \<and>
   progress (snd (complete_lesson ''budgeting'' 3 (snd (complete_lesson ''budgeting'' 2
                \<lparr>lessons = [],
                   progress = [[(''user_id'', Str ''default_user''),
                                (''completed_lessons'', PList [Str ''intro'']),
                                (''last_active'', DateTime 1)]],
                   simulations = []\<rparr>))))
     = [[(''user_id'', Str ''default_user''),
         (''completed_lessons'', PList [Str ''intro'', Str ''budgeting'']),
         (''last_active'', DateTime 3)]]"
proof -
  let ?s = "\<lparr>lessons = [],
        progress = [[(''user_id'', Str ''default_user''),
                     (''completed_lessons'', PList [Str ''intro'']),
                     (''last_active'', DateTime 1)]],
        simulations = []\<rparr>"
  have h: "completed_wf ?s"
    by (simp add: completed_wf_def progress_field_def user_progress_def find_one_def matches_def
          default_user_def)
  have e: "progress (snd (complete_lesson ''budgeting'' 3 (snd (complete_lesson ''budgeting'' 2 ?s))))
     = [[(''user_id'', Str ''default_user''),
         (''completed_lessons'', PList [Str ''intro'', Str ''budgeting'']),
         (''last_active'', DateTime 3)]]"
    by (simp add: complete_lesson_def add_to_set_def set_fields_def matches_def default_user_def)
  from h complete_lesson_twice_once [OF h, of "''budgeting''" 2 3] e show ?thesis
    by blast
qed

text \<open>
  C10. \<open>complete_lesson\<close> accepts every lesson id: it returns the acknowledgement
  echoing the id and the id is in \<^verbatim>\<open>completed_lessons\<close> afterwards. Nothing is
  assumed about the lesson store, which is neither read nor changed; in the witness the
  store is empty and \<open>get_lesson\<close> does not find the id.
\<close>

theorem complete_lesson_accepts_unknown_id:
  assumes "completed_is_array s"
  shows "fst (complete_lesson L now s) = Inr [(''success'', Bool True), (''lesson_id'', Str L)] \<and>
         Str L \<in> set (completed_list (snd (complete_lesson L now s))) \<and>
         lessons (snd (complete_lesson L now s)) = lessons s"
proof -
  from complete_lesson_ok [OF assms, of L now]
  obtain s' where s': "complete_lesson L now s =
                 (Inr [(''success'', Bool True), (''lesson_id'', Str L)], s')"
    "lessons s' = lessons s"
    "progress_field ''completed_lessons'' s' =
                Some (PList (if Str L \<in> set (completed_list s) then completed_list s
                             else completed_list s @ [Str L]))"
    by blast
  from s'(3) have "Str L \<in> set (completed_list s')"
    by (simp add: completed_list_def)
  with s'(1,2) show ?thesis by simp
qed

theorem complete_lesson_accepts_unknown_id_witness:
  "completed_is_array \<lparr>lessons = [], progress = [], simulations = []\<rparr> \<and>
   get_lesson ''no-such-lesson'' \<lparr>lessons = [], progress = [], simulations = []\<rparr>
     = Inl (HTTPException 404 ''Lesson not found'') \<and>
   fst (complete_lesson ''no-such-lesson'' 5 \<lparr>lessons = [], progress = [], simulations = []\<rparr>)
     = Inr [(''success'', Bool True), (''lesson_id'', Str ''no-such-lesson'')] \<and>
   Str ''no-such-lesson'' \<in>
     set (completed_list
            (snd (complete_lesson ''no-such-lesson'' 5
                    \<lparr>lessons = [], progress = [], simulations = []\<rparr>))) \<and>
   lessons (snd (complete_lesson ''no-such-lesson'' 5
                    \<lparr>lessons = [], progress = [], simulations = []\<rparr>)) = []"
proof -
  let ?s = "\<lparr>lessons = [], progress = [], simulations = []\<rparr>"
  have h: "completed_is_array ?s"
    by (simp add: completed_is_array_def progress_field_def user_progress_def find_one_def)
  have g: "get_lesson ''no-such-lesson'' ?s = Inl (HTTPException 404 ''Lesson not found'')"
    by (simp add: get_lesson_def find_one_def)
  from h g complete_lesson_accepts_unknown_id [OF h, of "''no-such-lesson''" 5] show ?thesis
    by simp
qed

section \<open>The field \<^verbatim>\<open>simulations_completed\<close>\<close>

text \<open>
  C9. No handler writes \<^verbatim>\<open>simulations_completed\<close>: running a simulation, completing
  a lesson, submitting a quiz and generating a lesson leave the field of the user's record
  as it was (absent when the record is, or when an upsert created the record), and reading
  the progress leaves it as it was unless it creates the record, where the field starts as
  the empty list.
\<close>

theorem simulations_completed_never_written:
  "progress_field ''simulations_completed'' (snd (calculate_simulation pf simulation now s)) =
     progress_field ''simulations_completed'' s \<and>
   progress_field ''simulations_completed'' (snd (complete_lesson lesson_id now s)) =
     progress_field ''simulations_completed'' s \<and>
   progress_field ''simulations_completed'' (snd (submit_quiz submission now s)) =
     progress_field ''simulations_completed'' s \<and>
   progress_field ''simulations_completed'' (snd (generate_lesson e request now s)) =
     progress_field ''simulations_completed'' s \<and>
   progress_field ''simulations_completed'' (snd (get_progress now s)) =
     (if user_progress s = None then Some (PList [])
      else progress_field ''simulations_completed'' s)"
  by (simp add: progress_field_cong [OF calculate_simulation_progress]
        progress_field_cong [OF generate_lesson_progress]
        complete_lesson_frame submit_quiz_frame get_progress_field)

section \<open>Generating a lesson\<close>

lemma make_lesson_Inr:
  assumes "make_lesson r c t = Inr l"
  shows "distinct (map fst l)" and "map_of l ''id'' = Some (Str (make_lesson_id r))"
proof -
  from assms obtain d where "c = Dict d"
    by (cases c) (simp_all add: make_lesson_def py_get_def)
  with assms have l: "l = [(''id'', Str (make_lesson_id r)),
          (''module_id'', Str (module_id r)),
          (''title'', dget d ''title'' (Str (topic r))),
          (''content'', dget d ''content'' (Str [])),
          (''duration_minutes'', IntV 3),
          (''key_points'', dget d ''key_points'' (PList [])),
          (''real_example'', dget d ''real_example'' (Str [])),
          (''quiz_questions'', PList []),
          (''daily_tip'', dget d ''daily_tip'' (Str [])),
          (''order'', IntV 1),
          (''created_at'', DateTime t)]"
    by (simp add: make_lesson_def py_get_def)
  show "distinct (map fst l)" by (simp add: l)
  show "map_of l ''id'' = Some (Str (make_lesson_id r))" by (simp add: l)
qed

lemma generate_lesson_Inr:
  assumes "generate_lesson e r t s = (Inr l, s')"
  shows "\<exists>c. generate_lesson_content e (topic r) (difficulty r) = Inr c \<and>
             make_lesson r c t = Inr l \<and>
             update_one ''id'' (Str (make_lesson_id r)) (\<lambda>d. Inr (set_fields l d)) (lessons s)
               = Inr (lessons s')"
  using assms
  by (auto simp: generate_lesson_def split: sum.splits)

lemma upsert_lesson:
  assumes "map_of l ''id'' = Some (Str i)" and "distinct (map fst l)"
    and "update_one ''id'' (Str i) (\<lambda>d. Inr (set_fields l d)) coll = Inr coll'"
  shows "\<exists>d. find_one ''id'' (Str i) coll' = Some d \<and>
             (\<forall>k v. map_of l k = Some v \<longrightarrow> map_of d k = Some v)"
    and "length coll' = (if find_one ''id'' (Str i) coll = None then Suc (length coll)
                         else length coll)"
proof -
  let ?d0 = "case find_one ''id'' (Str i) coll of None \<Rightarrow> [(''id'', Str i)] | Some d \<Rightarrow> d"
  let ?d' = "set_fields l ?d0"
  have m: "map_of ?d' = map_of ?d0 ++ map_of l"
    using assms(2) by (rule map_of_set_fields_distinct)
  then have "matches ''id'' (Str i) ?d'"
    using assms(1) by (simp add: matches_def)
  from update_one_result [of "\<lambda>d. Inr (set_fields l d)" "''id''" "Str i" coll ?d', OF refl this]
    assms(3)
  have found: "find_one ''id'' (Str i) coll' = Some ?d'"
    and len: "length coll' = (if find_one ''id'' (Str i) coll = None then Suc (length coll)
                         else length coll)"
    by auto
  from found m show "\<exists>d. find_one ''id'' (Str i) coll' = Some d \<and>
             (\<forall>k v. map_of l k = Some v \<longrightarrow> map_of d k = Some v)"
    by (simp add: map_add_def)
  from len show "length coll' = (if find_one ''id'' (Str i) coll = None then Suc (length coll)
                         else length coll)" .
qed

text \<open>
  Lowercasing twice is lowercasing once: a topic and its lowercased form have the same slug.
\<close>

lemma lower_char_idem: "lower_char (lower_char c) = lower_char c"
  by (simp add: lower_char_def Let_def)

lemma py_lower_idem: "py_lower (py_lower t) = py_lower t"
  by (simp add: py_lower_def lower_char_idem)

text \<open>
  C5, as claimed: the id is built by slugifying both \<open>module_id\<close> and \<open>topic\<close>, so
  that two calls whose module ids and topics agree up to letter case target the same id.
  The module id goes into the id as it is: \<^verbatim>\<open>Money Basics\<close> and \<^verbatim>\<open>money basics\<close>
  agree up to letter case and give two different ids, neither of them slugified.
\<close>

theorem module_id_not_slugified_counterexample:
  "py_lower ''Money Basics'' = py_lower ''money basics'' \<and>
   make_lesson_id \<lparr>module_id = ''Money Basics'', topic = ''Intro'', difficulty = ''beginner''\<rparr>
     = ''Money Basics_intro'' \<and>
   make_lesson_id \<lparr>module_id = ''money basics'', topic = ''Intro'', difficulty = ''beginner''\<rparr>
     = ''money basics_intro'' \<and>
   make_lesson_id \<lparr>module_id = ''Money Basics'', topic = ''Intro'', difficulty = ''beginner''\<rparr>
     \<noteq> make_lesson_id \<lparr>module_id = ''money basics'', topic = ''Intro'', difficulty = ''beginner''\<rparr>"
  by code_simp

text \<open>
  C5, amended: the id is the module id as given, an underscore, and the topic lowercased
  with its spaces replaced by underscores. Two calls with the same module id and topics
  that agree up to letter case target the same id, and when both succeed the second
  upsert overwrites the first record: the record found under the id carries every field
  of the second lesson, and the collection has not grown.
\<close>

theorem generate_lesson_same_id_overwrites:
  assumes "module_id r2 = module_id r1"
    and "py_lower (topic r2) = py_lower (topic r1)"
    and "generate_lesson e1 r1 t1 s = (Inr l1, s1)"
    and "generate_lesson e2 r2 t2 s1 = (Inr l2, s2)"
  shows "make_lesson_id r1 =
           module_id r1 @ ''_'' @ py_replace (CHR '' '') (CHR ''_'') (py_lower (topic r1)) \<and>
         make_lesson_id r2 = make_lesson_id r1 \<and>
         map_of l1 ''id'' = Some (Str (make_lesson_id r1)) \<and>
         map_of l2 ''id'' = Some (Str (make_lesson_id r1)) \<and>
         (\<exists>d. find_one ''id'' (Str (make_lesson_id r1)) (lessons s2) = Some d \<and>
              (\<forall>k v. map_of l2 k = Some v \<longrightarrow> map_of d k = Some v)) \<and>
         length (lessons s2) = length (lessons s1)"
proof -
  have same: "make_lesson_id r2 = make_lesson_id r1"
    using assms(1,2) by (simp add: make_lesson_id_def)
  from generate_lesson_Inr [OF assms(3)] obtain c1 where
    m1: "make_lesson r1 c1 t1 = Inr l1" and
    u1: "update_one ''id'' (Str (make_lesson_id r1)) (\<lambda>d. Inr (set_fields l1 d)) (lessons s)
               = Inr (lessons s1)"
    by blast
  from generate_lesson_Inr [OF assms(4)] same obtain c2 where
    m2: "make_lesson r2 c2 t2 = Inr l2" and
    u2: "update_one ''id'' (Str (make_lesson_id r1)) (\<lambda>d. Inr (set_fields l2 d)) (lessons s1)
               = Inr (lessons s2)"
    by auto
  have id1: "map_of l1 ''id'' = Some (Str (make_lesson_id r1))"
    using make_lesson_Inr(2) [OF m1] .
  have id2: "map_of l2 ''id'' = Some (Str (make_lesson_id r1))"
    using make_lesson_Inr(2) [OF m2] same by simp
  from upsert_lesson(1) [OF id1 make_lesson_Inr(1) [OF m1] u1]
  have stored: "find_one ''id'' (Str (make_lesson_id r1)) (lessons s1) \<noteq> None"
    by auto
  from upsert_lesson(2) [OF id2 make_lesson_Inr(1) [OF m2] u2] stored
  have len: "length (lessons s2) = length (lessons s1)" by simp
  from upsert_lesson(1) [OF id2 make_lesson_Inr(1) [OF m2] u2] same id1 id2 len
  show ?thesis by (simp add: make_lesson_id_def)
qed

theorem generate_lesson_same_id_overwrites_witness:
  "module_id \<lparr>module_id = ''money-basics'', topic = ''budgeting basics'', difficulty = ''beginner''\<rparr>
     = module_id \<lparr>module_id = ''money-basics'', topic = ''Budgeting Basics'', difficulty = ''beginner''\<rparr> \<and>
   py_lower (topic \<lparr>module_id = ''money-basics'', topic = ''budgeting basics'', difficulty = ''beginner''\<rparr>)
     = py_lower (topic \<lparr>module_id = ''money-basics'', topic = ''Budgeting Basics'', difficulty = ''beginner''\<rparr>) \<and>
   generate_lesson
      \<lparr>api_key = Some ''sk-test'', send_message = (\<lambda>key session sys prompt. Inr ''{}''),
         json_loads = (\<lambda>text. Some (Dict [])), exn_str = (\<lambda>ex. [])\<rparr>
      \<lparr>module_id = ''money-basics'', topic = ''Budgeting Basics'', difficulty = ''beginner''\<rparr> 1
      \<lparr>lessons = [], progress = [], simulations = []\<rparr>
     = (Inr [(''id'', Str ''money-basics_budgeting_basics''), (''module_id'', Str ''money-basics''),
             (''title'', Str ''Budgeting Basics''), (''content'', Str []),
             (''duration_minutes'', IntV 3), (''key_points'', PList []),
             (''real_example'', Str []), (''quiz_questions'', PList []),
             (''daily_tip'', Str []), (''order'', IntV 1), (''created_at'', DateTime 1)],
        \<lparr>lessons = [[(''id'', Str ''money-basics_budgeting_basics''), (''module_id'', Str ''money-basics''),
             (''title'', Str ''Budgeting Basics''), (''content'', Str []),
             (''duration_minutes'', IntV 3), (''key_points'', PList []),
             (''real_example'', Str []), (''quiz_questions'', PList []),
             (''daily_tip'', Str []), (''order'', IntV 1), (''created_at'', DateTime 1)]],
           progress = [], simulations = []\<rparr>) \<and>
   generate_lesson
      \<lparr>api_key = Some ''sk-test'', send_message = (\<lambda>key session sys prompt. Inr ''{}''),
         json_loads = (\<lambda>text. Some (Dict [])), exn_str = (\<lambda>ex. [])\<rparr>
      \<lparr>module_id = ''money-basics'', topic = ''budgeting basics'', difficulty = ''beginner''\<rparr> 2
      \<lparr>lessons = [[(''id'', Str ''money-basics_budgeting_basics''), (''module_id'', Str ''money-basics''),
             (''title'', Str ''Budgeting Basics''), (''content'', Str []),
             (''duration_minutes'', IntV 3), (''key_points'', PList []),
             (''real_example'', Str []), (''quiz_questions'', PList []),
             (''daily_tip'', Str []), (''order'', IntV 1), (''created_at'', DateTime 1)]],
           progress = [], simulations = []\<rparr>
     = (Inr [(''id'', Str ''money-basics_budgeting_basics''), (''module_id'', Str ''money-basics''),
             (''title'', Str ''budgeting basics''), (''content'', Str []),
             (''duration_minutes'', IntV 3), (''key_points'', PList []),
             (''real_example'', Str []), (''quiz_questions'', PList []),
             (''daily_tip'', Str []), (''order'', IntV 1), (''created_at'', DateTime 2)],
        \<lparr>lessons = [[(''id'', Str ''money-basics_budgeting_basics''), (''module_id'', Str ''money-basics''),
             (''title'', Str ''budgeting basics''), (''content'', Str []),
             (''duration_minutes'', IntV 3), (''key_points'', PList []),
             (''real_example'', Str []), (''quiz_questions'', PList []),
             (''daily_tip'', Str []), (''order'', IntV 1), (''created_at'', DateTime 2)]],
           progress = [], simulations = []\<rparr>) \<and>
   make_lesson_id \<lparr>module_id = ''money-basics'', topic = ''budgeting basics'', difficulty = ''beginner''\<rparr>
     = make_lesson_id \<lparr>module_id = ''money-basics'', topic = ''Budgeting Basics'', difficulty = ''beginner''\<rparr> \<and>
   make_lesson_id \<lparr>module_id = ''money-basics'', topic = ''Budgeting Basics'', difficulty = ''beginner''\<rparr>
     = ''money-basics_budgeting_basics''"
proof -
  let ?e = "\<lparr>api_key = Some ''sk-test'', send_message = (\<lambda>key session sys prompt. Inr ''{}''),
         json_loads = (\<lambda>text. Some (Dict [])), exn_str = (\<lambda>ex. [])\<rparr>"
  let ?r1 = "\<lparr>module_id = ''money-basics'', topic = ''Budgeting Basics'', difficulty = ''beginner''\<rparr>"
  let ?r2 = "\<lparr>module_id = ''money-basics'', topic = ''budgeting basics'', difficulty = ''beginner''\<rparr>"
  have low: "py_lower ''budgeting basics'' = py_lower ''Budgeting Basics''"
    by code_simp
  have i1: "make_lesson_id ?r1 = ''money-basics_budgeting_basics''"
    by code_simp
  have i2: "make_lesson_id ?r2 = ''money-basics_budgeting_basics''"
    by code_simp
  have h1: "module_id ?r2 = module_id ?r1" by simp
  have h2: "py_lower (topic ?r2) = py_lower (topic ?r1)" using low by simp
  have h3: "generate_lesson ?e ?r1 1 \<lparr>lessons = [], progress = [], simulations = []\<rparr>
     = (Inr [(''id'', Str ''money-basics_budgeting_basics''), (''module_id'', Str ''money-basics''),
             (''title'', Str ''Budgeting Basics''), (''content'', Str []),
             (''duration_minutes'', IntV 3), (''key_points'', PList []),
             (''real_example'', Str []), (''quiz_questions'', PList []),
             (''daily_tip'', Str []), (''order'', IntV 1), (''created_at'', DateTime 1)],
        \<lparr>lessons = [[(''id'', Str ''money-basics_budgeting_basics''), (''module_id'', Str ''money-basics''),
             (''title'', Str ''Budgeting Basics''), (''content'', Str []),
             (''duration_minutes'', IntV 3), (''key_points'', PList []),
             (''real_example'', Str []), (''quiz_questions'', PList []),
             (''daily_tip'', Str []), (''order'', IntV 1), (''created_at'', DateTime 1)]],
           progress = [], simulations = []\<rparr>)"
    by (simp add: generate_lesson_def generate_lesson_content_def make_lesson_def py_get_def i1
          set_fields_def)
  have h4: "generate_lesson ?e ?r2 2
      \<lparr>lessons = [[(''id'', Str ''money-basics_budgeting_basics''), (''module_id'', Str ''money-basics''),
             (''title'', Str ''Budgeting Basics''), (''content'', Str []),
             (''duration_minutes'', IntV 3), (''key_points'', PList []),
             (''real_example'', Str []), (''quiz_questions'', PList []),
             (''daily_tip'', Str []), (''order'', IntV 1), (''created_at'', DateTime 1)]],
           progress = [], simulations = []\<rparr>
     = (Inr [(''id'', Str ''money-basics_budgeting_basics''), (''module_id'', Str ''money-basics''),
             (''title'', Str ''budgeting basics''), (''content'', Str []),
             (''duration_minutes'', IntV 3), (''key_points'', PList []),
             (''real_example'', Str []), (''quiz_questions'', PList []),
             (''daily_tip'', Str []), (''order'', IntV 1), (''created_at'', DateTime 2)],
        \<lparr>lessons = [[(''id'', Str ''money-basics_budgeting_basics''), (''module_id'', Str ''money-basics''),
             (''title'', Str ''budgeting basics''), (''content'', Str []),
             (''duration_minutes'', IntV 3), (''key_points'', PList []),
             (''real_example'', Str []), (''quiz_questions'', PList []),
             (''daily_tip'', Str []), (''order'', IntV 1), (''created_at'', DateTime 2)]],
           progress = [], simulations = []\<rparr>)"
    by (simp add: generate_lesson_def generate_lesson_content_def make_lesson_def py_get_def i2
          set_fields_def matches_def)
  from generate_lesson_same_id_overwrites [OF h1 h2 h3 h4]
  have "make_lesson_id ?r2 = make_lesson_id ?r1" by blast
  with h1 h2 h3 h4 i1 show ?thesis by blast
qed

text \<open>
  When \<^verbatim>\<open>json.loads\<close> raises on the collaborator's response, \<open>generate_lesson\<close>
  does not fail: it returns and stores a lesson whose title is the requested topic, whose
  content is the first 400 characters of the response, and whose key points, example and
  daily tip are the fixed placeholders.
\<close>

lemma malformed_response_fallback_lesson:
  assumes "api_key e = Some key" and "key \<noteq> []"
    and "send_message e key (''lesson_'' @ topic r) system_message
           (lesson_prompt (topic r) (difficulty r)) = Inr response"
    and "json_loads e response = None"
  shows "fst (generate_lesson e r now s) =
           Inr [(''id'', Str (make_lesson_id r)),
                (''module_id'', Str (module_id r)),
                (''title'', Str (topic r)),
                (''content'', Str (take 400 response)),
                (''duration_minutes'', IntV 3),
                (''key_points'',
                   PList [Str ''Understand the basics'', Str ''Apply in real life'',
                          Str ''Track progress'']),
                (''real_example'', Str ''Example scenario based on this concept.''),
                (''quiz_questions'', PList []),
                (''daily_tip'', Str ''Start small and stay consistent.''),
                (''order'', IntV 1),
                (''created_at'', DateTime now)] \<and>
         (\<exists>d. find_one ''id'' (Str (make_lesson_id r)) (lessons (snd (generate_lesson e r now s)))
                = Some d \<and>
              map_of d ''title'' = Some (Str (topic r)) \<and>
              map_of d ''content'' = Some (Str (take 400 response)) \<and>
              map_of d ''key_points'' =
                Some (PList [Str ''Understand the basics'', Str ''Apply in real life'',
                             Str ''Track progress'']) \<and>
              map_of d ''real_example'' = Some (Str ''Example scenario based on this concept.'') \<and>
              map_of d ''daily_tip'' = Some (Str ''Start small and stay consistent.''))"
proof -
  let ?l = "[(''id'', Str (make_lesson_id r)),
                (''module_id'', Str (module_id r)),
                (''title'', Str (topic r)),
                (''content'', Str (take 400 response)),
                (''duration_minutes'', IntV 3),
                (''key_points'',
                   PList [Str ''Understand the basics'', Str ''Apply in real life'',
                          Str ''Track progress'']),
                (''real_example'', Str ''Example scenario based on this concept.''),
                (''quiz_questions'', PList []),
                (''daily_tip'', Str ''Start small and stay consistent.''),
                (''order'', IntV 1),
                (''created_at'', DateTime now)]"
  have c: "generate_lesson_content e (topic r) (difficulty r) = Inr (fallback_lesson (topic r) response)"
    using assms by (simp add: generate_lesson_content_def)
  have m: "make_lesson r (fallback_lesson (topic r) response) now = Inr ?l"
    by (simp add: make_lesson_def fallback_lesson_def py_get_def)
  let ?d0 = "case find_one ''id'' (Str (make_lesson_id r)) (lessons s) of
               None \<Rightarrow> [(''id'', Str (make_lesson_id r))] | Some d \<Rightarrow> d"
  have mo: "map_of (set_fields ?l ?d0) = map_of ?d0 ++ map_of ?l"
    by (rule map_of_set_fields_distinct) simp
  then have "matches ''id'' (Str (make_lesson_id r)) (set_fields ?l ?d0)"
    by (simp add: matches_def)
  from update_one_result [of "\<lambda>d. Inr (set_fields ?l d)" "''id''" "Str (make_lesson_id r)"
         "lessons s" "set_fields ?l ?d0", OF refl this]
  obtain ls where ls: "update_one ''id'' (Str (make_lesson_id r)) (\<lambda>d. Inr (set_fields ?l d))
                         (lessons s) = Inr ls"
    and found: "find_one ''id'' (Str (make_lesson_id r)) ls = Some (set_fields ?l ?d0)"
    by blast
  have g: "generate_lesson e r now s = (Inr ?l, s\<lparr>lessons := ls\<rparr>)"
    by (simp add: generate_lesson_def c m ls)
  show ?thesis
    by (simp add: g found mo)
qed

lemma malformed_response_fallback_lesson_example:
  "api_key \<lparr>api_key = Some ''sk-test'',
              send_message = (\<lambda>key session sys prompt. Inr ''Sorry, plain text only.''),
              json_loads = (\<lambda>text. None), exn_str = (\<lambda>ex. [])\<rparr> = Some ''sk-test'' \<and>
   ''sk-test'' \<noteq> [] \<and>
   send_message \<lparr>api_key = Some ''sk-test'',
              send_message = (\<lambda>key session sys prompt. Inr ''Sorry, plain text only.''),
              json_loads = (\<lambda>text. None), exn_str = (\<lambda>ex. [])\<rparr>
       ''sk-test''
       (''lesson_'' @ topic \<lparr>module_id = ''money-basics'', topic = ''Saving'', difficulty = ''beginner''\<rparr>)
       system_message
       (lesson_prompt (topic \<lparr>module_id = ''money-basics'', topic = ''Saving'', difficulty = ''beginner''\<rparr>)
          (difficulty \<lparr>module_id = ''money-basics'', topic = ''Saving'', difficulty = ''beginner''\<rparr>))
     = Inr ''Sorry, plain text only.'' \<and>
   json_loads \<lparr>api_key = Some ''sk-test'',
              send_message = (\<lambda>key session sys prompt. Inr ''Sorry, plain text only.''),
              json_loads = (\<lambda>text. None), exn_str = (\<lambda>ex. [])\<rparr> ''Sorry, plain text only.'' = None \<and>
   fst (generate_lesson
          \<lparr>api_key = Some ''sk-test'',
              send_message = (\<lambda>key session sys prompt. Inr ''Sorry, plain text only.''),
              json_loads = (\<lambda>text. None), exn_str = (\<lambda>ex. [])\<rparr>
          \<lparr>module_id = ''money-basics'', topic = ''Saving'', difficulty = ''beginner''\<rparr> 9
          \<lparr>lessons = [], progress = [], simulations = []\<rparr>)
     = Inr [(''id'', Str ''money-basics_saving''),
            (''module_id'', Str ''money-basics''),
            (''title'', Str ''Saving''),
            (''content'', Str ''Sorry, plain text only.''),
            (''duration_minutes'', IntV 3),
            (''key_points'',
               PList [Str ''Understand the basics'', Str ''Apply in real life'',
                      Str ''Track progress'']),
            (''real_example'', Str ''Example scenario based on this concept.''),
            (''quiz_questions'', PList []),
            (''daily_tip'', Str ''Start small and stay consistent.''),
            (''order'', IntV 1),
            (''created_at'', DateTime 9)]"
proof -
  let ?e = "\<lparr>api_key = Some ''sk-test'',
              send_message = (\<lambda>key session sys prompt. Inr ''Sorry, plain text only.''),
              json_loads = (\<lambda>text. None), exn_str = (\<lambda>ex. [])\<rparr>"
  let ?r = "\<lparr>module_id = ''money-basics'', topic = ''Saving'', difficulty = ''beginner''\<rparr>"
  have i: "make_lesson_id ?r = ''money-basics_saving''"
    by code_simp
  have h1: "api_key ?e = Some ''sk-test''" by simp
  have h2: "''sk-test'' \<noteq> []" by simp
  have h3: "send_message ?e ''sk-test'' (''lesson_'' @ topic ?r) system_message
              (lesson_prompt (topic ?r) (difficulty ?r)) = Inr ''Sorry, plain text only.''"
    by simp
  have h4: "json_loads ?e ''Sorry, plain text only.'' = None" by simp
  from malformed_response_fallback_lesson [OF h1 h2 h3 h4, of 9 "\<lparr>lessons = [], progress = [], simulations = []\<rparr>"]
  have "fst (generate_lesson ?e ?r 9 \<lparr>lessons = [], progress = [], simulations = []\<rparr>)
     = Inr [(''id'', Str ''money-basics_saving''),
            (''module_id'', Str ''money-basics''),
            (''title'', Str ''Saving''),
            (''content'', Str ''Sorry, plain text only.''),
            (''duration_minutes'', IntV 3),
            (''key_points'',
               PList [Str ''Understand the basics'', Str ''Apply in real life'',
                      Str ''Track progress'']),
            (''real_example'', Str ''Example scenario based on this concept.''),
            (''quiz_questions'', PList []),
            (''daily_tip'', Str ''Start small and stay consistent.''),
            (''order'', IntV 1),
            (''created_at'', DateTime 9)]"
    by (simp add: i)
  with h1 h2 h3 h4 show ?thesis by blast
qed

text \<open>
  A response that is JSON but not an object is not covered by the fallback: the parser
  does not raise, and \<open>generate_lesson\<close> calls \<^verbatim>\<open>.get\<close> on the value.
\<close>

lemma json_not_an_object_raises:
  assumes "api_key e = Some key" and "key \<noteq> []"
    and "send_message e key (''lesson_'' @ topic r) system_message
           (lesson_prompt (topic r) (difficulty r)) = Inr response"
    and "json_loads e response = Some v" and "\<forall>d. v \<noteq> Dict d"
  shows "generate_lesson e r now s = (Inl AttributeError, s)"
proof -
  have "generate_lesson_content e (topic r) (difficulty r) = Inr v"
    using assms by (simp add: generate_lesson_content_def)
  moreover have "make_lesson r v now = Inl AttributeError"
    using assms(5) by (cases v) (simp_all add: make_lesson_def py_get_def)
  ultimately show ?thesis by (simp add: generate_lesson_def)
qed

text \<open>
  C7. The claim: a response of the collaborator that cannot be read as the JSON object
  of a lesson yields the fallback lesson, not an error. The handler catches only the
  parser's \<^verbatim>\<open>JSONDecodeError\<close>. A response that is valid JSON but not an object (here the
  empty array \<^verbatim>\<open>[]\<close>) is parsed, returned by \<open>generate_lesson_content\<close>, and
  \<open>generate_lesson\<close> then asks it for its fields with \<^verbatim>\<open>.get\<close>: \<^verbatim>\<open>AttributeError\<close> is raised
  outside every handler, the request fails and no lesson is stored.
\<close>

theorem json_array_response_raises:
  "generate_lesson
     \<lparr>api_key = Some ''sk-test'',
        send_message = (\<lambda>key session sys prompt. Inr ''[]''),
        json_loads = (\<lambda>text. if text = ''[]'' then Some (PList []) else None),
        exn_str = str\<rparr> request now s
   = (Inl AttributeError, s)"
  by (simp add: generate_lesson_def generate_lesson_content_def make_lesson_def py_get_def
        Let_def)

text \<open>
  A failing collaborator call: the exception is wrapped and nothing is stored.
\<close>

lemma upstream_failure_wrapped:
  assumes "api_key e = Some key" and "key \<noteq> []"
    and "send_message e key (''lesson_'' @ topic r) system_message
           (lesson_prompt (topic r) (difficulty r)) = Inl ex"
  shows "generate_lesson e r now s =
           (Inl (HTTPException 500 (''Failed to generate lesson: '' @ exn_str e ex)), s)"
  using assms by (simp add: generate_lesson_def generate_lesson_content_def)

text \<open>
  C8. The claim: a missing key makes \<open>generate_lesson\<close> fail with a response of its
  own, distinct from the one for a failing collaborator call, and nothing is stored.
  Nothing is stored, but the \<^verbatim>\<open>HTTPException\<close> for the missing key is raised inside the
  \<^verbatim>\<open>try\<close> block and leaves the handler in the wrapping of an upstream failure: status
  500, \<^verbatim>\<open>Failed to generate lesson: \<close> and the text of the exception. A collaborator
  that raises the same exception gives the very same response.
\<close>

theorem unconfigured_wrapped_as_upstream_failure:
  "generate_lesson \<lparr>api_key = None, send_message = sm, json_loads = jl, exn_str = str\<rparr>
      request now s
     = (Inl (HTTPException 500
               (''Failed to generate lesson: '' @
                  str (HTTPException 500 ''API key not configured''))), s) \<and>
   generate_lesson
      \<lparr>api_key = Some ''sk-test'',
         send_message = (\<lambda>key session sys prompt.
                            Inl (HTTPException 500 ''API key not configured'')),
         json_loads = jl, exn_str = str\<rparr>
      request now s
     = generate_lesson \<lparr>api_key = None, send_message = sm, json_loads = jl, exn_str = str\<rparr>
         request now s"
  by (simp add: generate_lesson_def generate_lesson_content_def)

end
